theory Spec2Isabelle
  imports Complex_Main
begin

section \<open>Travel-fee calculator (app.py): the model\<close>

text \<open>
  The service computes a travel surcharge from a fixed depot postal code (CEP) to a
  destination given as a CEP or as a free-form address. The model follows app.py
  function by function.

  Conventions of the embedding:
  \<^item> Python floats are modelled as reals. Arithmetic is exact, with one exception:
    the rounding error of the haversine term \<open>a\<close> (line 290), on which the domain of
    \<open>math.sqrt\<close> depends, is a parameter of the environment. NaN and infinities are
    outside the model.
  \<^item> A Python string is the list of its code points (\<open>pystr\<close>). The Unicode tables
    behind \<open>str.isdigit\<close>, \<open>str.lower\<close> and the whitespace of \<open>str.strip\<close> are
    parameters of the environment; nothing is assumed about them.
  \<^item> A raised exception is the \<open>Inl\<close> branch of a sum; \<open>try\<close>/\<open>except\<close> is a case on it.
  \<^item> The global dictionary \<open>CACHE_COORDENADAS\<close> and the outbound HTTP requests are
    explicit state: every \<open>requests.get\<close> appends the request to a log.
  \<^item> The three upstream services are a parameter too (\<open>world\<close>): the answer to a
    request may depend on the number of requests issued before it, so the services may
    change their answers over time.
\<close>

subsection \<open>Python strings\<close>

type_synonym pystr = "nat list"

text \<open>A string literal of the program text (ASCII).\<close>

definition lit :: "string \<Rightarrow> pystr" where
  "lit s = map of_char s"

text \<open>\<open>s.strip(chars)\<close>: drop the characters satisfying \<open>P\<close> at both ends.\<close>

definition strip_where :: "(nat \<Rightarrow> bool) \<Rightarrow> pystr \<Rightarrow> pystr" where
  "strip_where P s = rev (dropWhile P (rev (dropWhile P s)))"

text \<open>\<open>sub in s\<close> on strings.\<close>

fun contem :: "pystr \<Rightarrow> pystr \<Rightarrow> bool" where
  "contem sub [] = (sub = [])"
| "contem sub (c # cs) = (take (length sub) (c # cs) = sub \<or> contem sub cs)"

subsection \<open>Business constants\<close>

definition CEP_ORIGEM :: pystr where
  "CEP_ORIGEM = lit ''17017-337''"

definition TAXA_POR_KM :: real where
  "TAXA_POR_KM = 1.60"

definition FRANQUIA_KM_IDA :: real where
  "FRANQUIA_KM_IDA = 30.0"

definition FRANQUIA_KM_TOTAL :: real where
  "FRANQUIA_KM_TOTAL = FRANQUIA_KM_IDA * 2"

subsection \<open>Rounding\<close>

text \<open>
  \<open>round(x, n)\<close> rounds to the nearest multiple of \<open>10^-n\<close>, ties to even. Here it is
  applied to the exact real; the code applies it to the double it has computed, which
  near a tie may fall on the other side, so that a reported figure can differ from the
  one computed here by one unit of the last decimal.
\<close>

definition round_half_even :: "real \<Rightarrow> int" where
  "round_half_even x =
     (let f = \<lfloor>x\<rfloor>; r = x - of_int f
      in if r < 1 / 2 then f
         else if 1 / 2 < r then f + 1
         else if even f then f else f + 1)"

definition py_round :: "real \<Rightarrow> nat \<Rightarrow> real" where
  "py_round x n = of_int (round_half_even (x * 10 ^ n)) / 10 ^ n"

subsection \<open>The fee rule\<close>

text \<open>
  The block "Calcular taxa" of \<open>calcular_taxa_por_endereco\<close> (lines 329-339) and of
  \<open>calcular_taxa_deslocamento\<close> (lines 410-420), the same text in both: from the one-way
  distance in km it sets the local variables \<open>km_excedente\<close> and \<open>valor_taxa\<close>, returned
  here as a pair.
\<close>

definition calcular_taxa :: "real \<Rightarrow> real \<times> real" where
  "calcular_taxa distancia_ida_km =
     (if distancia_ida_km > FRANQUIA_KM_IDA then
        let distancia_total_km = distancia_ida_km * 2;
            km_excedente = distancia_total_km - FRANQUIA_KM_TOTAL;
            valor_taxa = km_excedente * TAXA_POR_KM
        in (km_excedente, valor_taxa)
      else (0.0, 0.0))"

subsection \<open>Exceptions, coordinates and the upstream services\<close>

text \<open>
  The exceptions the code raises itself carry the identifier of their message
  (\<open>str(e)\<close> is what the fee functions put into \<open>mensagem\<close>); the other constructors are
  the exceptions of the runtime and of the HTTP client.
\<close>

datatype error =
    CEP_nao_encontrado pystr
  | CEP_invalido pystr
  | Coordenadas_indisponiveis pystr
  | Endereco_nao_encontrado pystr
  | KeyError string
  | ValueError
  | RequestException
  | JSONDecodeError

text \<open>
  The dictionary a resolver returns. The postal-code path builds it without the key
  \<open>'cep'\<close> (\<open>None\<close>); the address path sets it.
\<close>

record coordenadas =
  lat :: real
  lon :: real
  endereco :: pystr
  cidade :: pystr
  uf :: pystr
  cep :: "pystr option"

text \<open>
  The answer of \<open>requests.get\<close>: \<open>status_code\<close> and the outcome of \<open>response.json()\<close>,
  which may raise.
\<close>

record 'a http_response =
  status_code :: int
  json :: "error + 'a"

text \<open>
  The ViaCEP document: \<open>erro\<close> says that the key \<open>'erro'\<close> is present; the four address
  fields are strings, as the registry documents them, and an absent or empty
  \<open>'logradouro'\<close>, which the code treats alike (\<open>dados_cep.get('logradouro')\<close>), is the
  empty string.
\<close>

record dados_viacep =
  erro :: bool
  logradouro :: pystr
  bairro :: pystr
  localidade :: pystr
  uf_cep :: pystr

text \<open>
  A Nominatim candidate. \<open>place_lat\<close> and \<open>place_lon\<close> are the outcomes of
  \<open>float(place['lat'])\<close> and \<open>float(place['lon'])\<close>, which raise on a missing key or an
  unparsable value; an optional field is \<open>None\<close> when its key is absent.
\<close>

record nominatim_address =
  city :: "pystr option"
  town :: "pystr option"
  municipality :: "pystr option"
  village :: "pystr option"
  county :: "pystr option"
  state :: "pystr option"
  postcode :: "pystr option"

record place =
  place_lat :: "error + real"
  place_lon :: "error + real"
  display_name :: "pystr option"
  address :: "nominatim_address option"

text \<open>The OSRM document; \<open>None\<close> is an absent key.\<close>

record route =
  distance :: "real option"
  duration :: "real option"

record osrm_data =
  code :: "pystr option"
  routes :: "route list option"

text \<open>
  The environment of the process.

  The services: the first argument is the number of requests issued so far; \<open>Inl\<close> is
  an exception raised by \<open>requests.get\<close> (connection error, timeout).
  \<open>nominatim\<close> takes the query \<open>q\<close> and whether \<open>addressdetails\<close> is set; \<open>osrm\<close> takes
  origin longitude and latitude, destination longitude and latitude, in the order of
  the URL.

  The Python runtime: \<open>str_isdigit\<close> and \<open>str_isspace\<close> are \<open>str.isdigit\<close> and
  \<open>str.isspace\<close> on one character, \<open>str_lower\<close> is \<open>str.lower\<close> (which is not
  character-wise in general).

  The float unit: \<open>erro_a c1 c2\<close> is the rounding error of lines 284-290 at the
  coordinates \<open>c1\<close> and \<open>c2\<close>, the double computed for \<open>a\<close> minus its exact value.
\<close>

record world =
  viacep :: "nat \<Rightarrow> pystr \<Rightarrow> error + dados_viacep http_response"
  nominatim :: "nat \<Rightarrow> pystr \<Rightarrow> bool \<Rightarrow> error + place list http_response"
  osrm :: "nat \<Rightarrow> real \<Rightarrow> real \<Rightarrow> real \<Rightarrow> real \<Rightarrow> error + osrm_data http_response"
  str_isdigit :: "nat \<Rightarrow> bool"
  str_isspace :: "nat \<Rightarrow> bool"
  str_lower :: "pystr \<Rightarrow> pystr"
  erro_a :: "coordenadas \<Rightarrow> coordenadas \<Rightarrow> real"

datatype requisicao =
    Get_viacep pystr
  | Get_nominatim pystr bool
  | Get_osrm real real real real

text \<open>The process state: the cache and the log of outbound requests.\<close>

record estado =
  CACHE_COORDENADAS :: "pystr \<rightharpoonup> coordenadas"
  requisicoes :: "requisicao list"

definition get_viacep ::
  "world \<Rightarrow> pystr \<Rightarrow> estado \<Rightarrow> (error + dados_viacep http_response) \<times> estado" where
  "get_viacep w cep_limpo s =
     (viacep w (length (requisicoes s)) cep_limpo,
      s\<lparr>requisicoes := requisicoes s @ [Get_viacep cep_limpo]\<rparr>)"

definition get_nominatim ::
  "world \<Rightarrow> pystr \<Rightarrow> bool \<Rightarrow> estado \<Rightarrow> (error + place list http_response) \<times> estado" where
  "get_nominatim w q addressdetails s =
     (nominatim w (length (requisicoes s)) q addressdetails,
      s\<lparr>requisicoes := requisicoes s @ [Get_nominatim q addressdetails]\<rparr>)"

definition get_osrm ::
  "world \<Rightarrow> real \<Rightarrow> real \<Rightarrow> real \<Rightarrow> real \<Rightarrow> estado
     \<Rightarrow> (error + osrm_data http_response) \<times> estado" where
  "get_osrm w lon1 lat1 lon2 lat2 s =
     (osrm w (length (requisicoes s)) lon1 lat1 lon2 lat2,
      s\<lparr>requisicoes := requisicoes s @ [Get_osrm lon1 lat1 lon2 lat2]\<rparr>)"

text \<open>
  \<open>response.status_code == 200 and response.json()\<close> followed by \<open>response.json()[0]\<close>:
  the first candidate, \<open>None\<close> when the status is not 200 or the list is empty.
\<close>

definition primeiro_resultado :: "place list http_response \<Rightarrow> error + place option" where
  "primeiro_resultado response =
     (if status_code response = 200 then
        (case json response of
           Inl e \<Rightarrow> Inl e
         | Inr [] \<Rightarrow> Inr None
         | Inr (p # _) \<Rightarrow> Inr (Some p))
      else Inr None)"

text \<open>Store a resolved dictionary under its key and return it.\<close>

definition guardar_no_cache ::
  "pystr \<Rightarrow> coordenadas \<Rightarrow> estado \<Rightarrow> (error + coordenadas) \<times> estado" where
  "guardar_no_cache chave resultado s =
     (Inr resultado, s\<lparr>CACHE_COORDENADAS := (CACHE_COORDENADAS s)(chave \<mapsto> resultado)\<rparr>)"

subsection \<open>CEP normalisation (limpar_cep, formatar_cep)\<close>

text \<open>\<open>s.strip()\<close>: drop the whitespace at both ends.\<close>

definition strip :: "world \<Rightarrow> pystr \<Rightarrow> pystr" where
  "strip w s = strip_where (str_isspace w) s"

definition limpar_cep :: "world \<Rightarrow> pystr \<Rightarrow> pystr" where
  "limpar_cep w cep_str = filter (str_isdigit w) cep_str"

definition formatar_cep :: "world \<Rightarrow> pystr \<Rightarrow> pystr" where
  "formatar_cep w cep_str =
     (let cep_limpo = limpar_cep w cep_str
      in if length cep_limpo = 8 then take 5 cep_limpo @ lit ''-'' @ drop 5 cep_limpo
         else cep_str)"

subsection \<open>Coordinate resolver, postal-code path (obter_coordenadas_viacep)\<close>

definition coordenadas_cidades :: "(pystr \<times> real \<times> real) list" where
  "coordenadas_cidades =
     [(lit ''17'', -22.3155, -49.0708),
      (lit ''17017'', -22.3155, -49.0708),
      (lit ''17015'', -22.3155, -49.0708),
      (lit ''17120'', -22.2189, -49.0478),
      (lit ''17500'', -22.4249, -49.9461),
      (lit ''17600'', -22.2208, -50.1761),
      (lit ''17800'', -21.6833, -51.1333),
      (lit ''18600'', -22.8858, -48.4452),
      (lit ''01310'', -23.5489, -46.6388),
      (lit ''01000'', -23.5505, -46.6333),
      (lit ''80000'', -25.4284, -49.2733),
      (lit ''30000'', -19.9167, -43.9345)]"

text \<open>Lines 120-159: the static table, by 5-digit then 2-digit prefix.\<close>

definition buscar_tabela ::
  "pystr \<Rightarrow> pystr \<Rightarrow> dados_viacep \<Rightarrow> estado \<Rightarrow> (error + coordenadas) \<times> estado" where
  "buscar_tabela cep_str cep_limpo dados_cep s =
     (let prefixo5 = take 5 cep_limpo;
          coords = (case map_of coordenadas_cidades prefixo5 of
                      Some c \<Rightarrow> Some c
                    | None \<Rightarrow> map_of coordenadas_cidades (take 2 cep_limpo))
      in case coords of
           None \<Rightarrow> (Inl (Coordenadas_indisponiveis cep_str), s)
         | Some (la, lo) \<Rightarrow>
             guardar_no_cache cep_limpo
               \<lparr>lat = la, lon = lo,
                endereco = localidade dados_cep @ lit ''-'' @ uf_cep dados_cep
                             @ lit '' (aproximado)'',
                cidade = localidade dados_cep, uf = uf_cep dados_cep, cep = None\<rparr> s)"

text \<open>Lines 102-118: the second geocoding query, city and state only.\<close>

definition buscar_cidade ::
  "world \<Rightarrow> pystr \<Rightarrow> pystr \<Rightarrow> dados_viacep \<Rightarrow> estado \<Rightarrow> (error + coordenadas) \<times> estado" where
  "buscar_cidade w cep_str cep_limpo dados_cep s =
     (case get_nominatim w
             (localidade dados_cep @ lit '', '' @ uf_cep dados_cep @ lit '', Brazil'')
             False s of
        (Inl e, s1) \<Rightarrow> (Inl e, s1)
      | (Inr response, s1) \<Rightarrow>
          (case primeiro_resultado response of
             Inl e \<Rightarrow> (Inl e, s1)
           | Inr None \<Rightarrow> buscar_tabela cep_str cep_limpo dados_cep s1
           | Inr (Some coords_data) \<Rightarrow>
               (case place_lat coords_data of
                  Inl e \<Rightarrow> (Inl e, s1)
                | Inr la \<Rightarrow>
                    (case place_lon coords_data of
                       Inl e \<Rightarrow> (Inl e, s1)
                     | Inr lo \<Rightarrow>
                         guardar_no_cache cep_limpo
                           \<lparr>lat = la, lon = lo,
                            endereco = localidade dados_cep @ lit ''-'' @ uf_cep dados_cep,
                            cidade = localidade dados_cep, uf = uf_cep dados_cep,
                            cep = None\<rparr> s1))))"

text \<open>
  Lines 64-72: the first geocoding query is the street-level address when the registry
  entry has a street name, the city and state otherwise.
\<close>

definition endereco_busca_cep :: "dados_viacep \<Rightarrow> pystr" where
  "endereco_busca_cep dados_cep =
     (if logradouro dados_cep \<noteq> [] then
        logradouro dados_cep @ lit '', '' @ bairro dados_cep @ lit '', ''
          @ localidade dados_cep @ lit '', '' @ uf_cep dados_cep @ lit '', Brazil''
      else localidade dados_cep @ lit '', '' @ uf_cep dados_cep @ lit '', Brazil'')"

text \<open>Lines 74-100: the first geocoding query and its result.\<close>

definition buscar_endereco ::
  "world \<Rightarrow> pystr \<Rightarrow> pystr \<Rightarrow> dados_viacep \<Rightarrow> estado \<Rightarrow> (error + coordenadas) \<times> estado" where
  "buscar_endereco w cep_str cep_limpo dados_cep s =
     (case get_nominatim w (endereco_busca_cep dados_cep) False s of
        (Inl e, s1) \<Rightarrow> (Inl e, s1)
      | (Inr response, s1) \<Rightarrow>
          (case primeiro_resultado response of
             Inl e \<Rightarrow> (Inl e, s1)
           | Inr None \<Rightarrow> buscar_cidade w cep_str cep_limpo dados_cep s1
           | Inr (Some coords_data) \<Rightarrow>
               (case place_lat coords_data of
                  Inl e \<Rightarrow> (Inl e, s1)
                | Inr la \<Rightarrow>
                    (case place_lon coords_data of
                       Inl e \<Rightarrow> (Inl e, s1)
                     | Inr lo \<Rightarrow>
                         guardar_no_cache cep_limpo
                           \<lparr>lat = la, lon = lo,
                            endereco =
                              strip_where (\<lambda>c. c \<in> set (lit '', ''))
                                (logradouro dados_cep @ lit '', '' @ bairro dados_cep
                                   @ lit '', '' @ localidade dados_cep @ lit ''-''
                                   @ uf_cep dados_cep),
                            cidade = localidade dados_cep, uf = uf_cep dados_cep,
                            cep = None\<rparr> s1))))"

text \<open>
  Lines 43-62, then the three stages above. Every exception is logged and raised again
  (lines 161-163), so an \<open>Inl\<close> goes through unchanged.
\<close>

definition obter_coordenadas_viacep ::
  "world \<Rightarrow> pystr \<Rightarrow> estado \<Rightarrow> (error + coordenadas) \<times> estado" where
  "obter_coordenadas_viacep w cep_str s =
     (let cep_limpo = limpar_cep w cep_str
      in case CACHE_COORDENADAS s cep_limpo of
           Some resultado \<Rightarrow> (Inr resultado, s)
         | None \<Rightarrow>
             (case get_viacep w cep_limpo s of
                (Inl e, s1) \<Rightarrow> (Inl e, s1)
              | (Inr response, s1) \<Rightarrow>
                  if status_code response \<noteq> 200 then (Inl (CEP_nao_encontrado cep_str), s1)
                  else (case json response of
                          Inl e \<Rightarrow> (Inl e, s1)
                        | Inr dados_cep \<Rightarrow>
                            if erro dados_cep then (Inl (CEP_invalido cep_str), s1)
                            else buscar_endereco w cep_str cep_limpo dados_cep s1)))"

subsection \<open>Coordinate resolver, address path (obter_coordenadas_por_endereco)\<close>

text \<open>\<open>a or b or ... or ''\<close> over optional strings: the first non-empty one.\<close>

fun primeiro_nao_vazio :: "pystr option list \<Rightarrow> pystr" where
  "primeiro_nao_vazio [] = []"
| "primeiro_nao_vazio (None # xs) = primeiro_nao_vazio xs"
| "primeiro_nao_vazio (Some v # xs) = (if v \<noteq> [] then v else primeiro_nao_vazio xs)"

definition get_or :: "'a option \<Rightarrow> 'a \<Rightarrow> 'a" where
  "get_or v d = (case v of None \<Rightarrow> d | Some x \<Rightarrow> x)"

definition sem_address :: nominatim_address where
  "sem_address = \<lparr>city = None, town = None, municipality = None, village = None,
                   county = None, state = None, postcode = None\<rparr>"

definition chave_endereco :: "world \<Rightarrow> pystr \<Rightarrow> pystr" where
  "chave_endereco w endereco_completo =
     lit ''endereco_'' @ strip w (str_lower w endereco_completo)"

definition obter_coordenadas_por_endereco ::
  "world \<Rightarrow> pystr \<Rightarrow> estado \<Rightarrow> (error + coordenadas) \<times> estado" where
  "obter_coordenadas_por_endereco w endereco_completo s =
     (let cache_key = chave_endereco w endereco_completo
      in case CACHE_COORDENADAS s cache_key of
           Some resultado \<Rightarrow> (Inr resultado, s)
         | None \<Rightarrow>
             (let endereco_busca =
                    (if \<not> contem (lit ''brazil'') (str_lower w endereco_completo)
                        \<and> \<not> contem (lit ''brasil'') (str_lower w endereco_completo)
                     then endereco_completo @ lit '', Brazil''
                     else endereco_completo)
              in case get_nominatim w endereco_busca True s of
                   (Inl e, s1) \<Rightarrow> (Inl e, s1)
                 | (Inr response, s1) \<Rightarrow>
                     (case primeiro_resultado response of
                        Inl e \<Rightarrow> (Inl e, s1)
                      | Inr None \<Rightarrow> (Inl (Endereco_nao_encontrado endereco_completo), s1)
                      | Inr (Some resultado_busca) \<Rightarrow>
                          (let addr = get_or (address resultado_busca) sem_address;
                               cidade_v = primeiro_nao_vazio
                                            [city addr, town addr, municipality addr,
                                             village addr, county addr];
                               uf_v = get_or (state addr) [];
                               cep_v = get_or (postcode addr) (lit ''N/A'')
                           in case place_lat resultado_busca of
                                Inl e \<Rightarrow> (Inl e, s1)
                              | Inr la \<Rightarrow>
                                  (case place_lon resultado_busca of
                                     Inl e \<Rightarrow> (Inl e, s1)
                                   | Inr lo \<Rightarrow>
                                       guardar_no_cache cache_key
                                         \<lparr>lat = la, lon = lo,
                                          endereco = get_or (display_name resultado_busca)
                                                       endereco_completo,
                                          cidade = cidade_v, uf = uf_v,
                                          cep = Some cep_v\<rparr> s1)))))"

subsection \<open>Distance estimator (calcular_distancia_osrm, calcular_distancia_haversine)\<close>

record estimativa =
  distancia_metros :: real
  duracao_segundos :: real
  metodo :: string

text \<open>The functions of Python's \<open>math\<close> module the code calls.\<close>

definition radians :: "real \<Rightarrow> real" where
  "radians x = x * pi / 180"

text \<open>\<open>math.sqrt\<close> raises \<open>ValueError\<close> on a negative argument.\<close>

definition py_sqrt :: "real \<Rightarrow> error + real" where
  "py_sqrt x = (if x < 0 then Inl ValueError else Inr (sqrt x))"

definition atan2 :: "real \<Rightarrow> real \<Rightarrow> real" where
  "atan2 y x =
     (if 0 < x then arctan (y / x)
      else if x < 0 then (if 0 \<le> y then arctan (y / x) + pi else arctan (y / x) - pi)
      else if 0 < y then pi / 2
      else if y < 0 then - (pi / 2)
      else 0)"

text \<open>
  The variable \<open>a\<close> of \<open>calcular_distancia_haversine\<close> (lines 284-290), in exact
  arithmetic.
\<close>

definition haversine_a :: "coordenadas \<Rightarrow> coordenadas \<Rightarrow> real" where
  "haversine_a coord_origem coord_destino =
     (let lat1 = radians (lat coord_origem); lon1 = radians (lon coord_origem);
          lat2 = radians (lat coord_destino); lon2 = radians (lon coord_destino);
          dlat = lat2 - lat1;
          dlon = lon2 - lon1
      in (sin (dlat / 2))\<^sup>2 + cos lat1 * cos lat2 * (sin (dlon / 2))\<^sup>2)"

text \<open>
  Lines 282-307. The double the code holds in \<open>a\<close> is the exact value plus the rounding
  error of the float unit; the rest is computed exactly.
\<close>

definition calcular_distancia_haversine ::
  "world \<Rightarrow> coordenadas \<Rightarrow> coordenadas \<Rightarrow> error + estimativa" where
  "calcular_distancia_haversine w coord_origem coord_destino =
     (let R = 6371000;
          a = haversine_a coord_origem coord_destino + erro_a w coord_origem coord_destino
      in case py_sqrt a of
           Inl e \<Rightarrow> Inl e
         | Inr raiz_a \<Rightarrow>
             (case py_sqrt (1 - a) of
                Inl e \<Rightarrow> Inl e
              | Inr raiz_1a \<Rightarrow>
                  (let c = 2 * atan2 raiz_a raiz_1a;
                       distancia_linha_reta = R * c;
                       distancia_estimada = distancia_linha_reta * 1.3;
                       tempo_segundos = (distancia_estimada / 1000) * 3600 / 80
                   in Inr \<lparr>distancia_metros = distancia_estimada,
                           duracao_segundos = tempo_segundos,
                           metodo = ''haversine_ajustado''\<rparr>)))"

text \<open>
  Lines 258-267: what the body of the \<open>try\<close> makes of the OSRM response: the first
  route (\<open>Some\<close>), nothing usable (\<open>None\<close>, the code goes on to line 270), or an exception.
\<close>

definition rota_osrm :: "osrm_data http_response \<Rightarrow> error + estimativa option" where
  "rota_osrm response =
     (if status_code response = 200 then
        (case json response of
           Inl e \<Rightarrow> Inl e
         | Inr data \<Rightarrow>
             (case code data of
                None \<Rightarrow> Inl (KeyError ''code'')
              | Some c \<Rightarrow>
                  if c = lit ''Ok'' then
                    (case routes data of
                       None \<Rightarrow> Inl (KeyError ''routes'')
                     | Some [] \<Rightarrow> Inr None
                     | Some (route # _) \<Rightarrow>
                         (case distance route of
                            None \<Rightarrow> Inl (KeyError ''distance'')
                          | Some d \<Rightarrow>
                              (case duration route of
                                 None \<Rightarrow> Inl (KeyError ''duration'')
                               | Some t \<Rightarrow>
                                   Inr (Some \<lparr>distancia_metros = d, duracao_segundos = t,
                                              metodo = ''osrm''\<rparr>))))
                  else Inr None))
      else Inr None)"

text \<open>
  The \<open>try\<close> (lines 245-271) and its handler (lines 273-275). The fallback of line 271
  is itself inside the \<open>try\<close>: an exception it raised would be caught and the fallback
  called once more by the handler.
\<close>

definition calcular_distancia_osrm ::
  "world \<Rightarrow> coordenadas \<Rightarrow> coordenadas \<Rightarrow> estado \<Rightarrow> (error + estimativa) \<times> estado" where
  "calcular_distancia_osrm w coord_origem coord_destino s =
     (case get_osrm w (lon coord_origem) (lat coord_origem)
             (lon coord_destino) (lat coord_destino) s of
        (resposta, s1) \<Rightarrow>
          (case (case resposta of Inl e \<Rightarrow> Inl e | Inr response \<Rightarrow> rota_osrm response) of
             Inr (Some rota) \<Rightarrow> (Inr rota, s1)
           | Inr None \<Rightarrow>
               (case calcular_distancia_haversine w coord_origem coord_destino of
                  Inr r \<Rightarrow> (Inr r, s1)
                | Inl e \<Rightarrow> (calcular_distancia_haversine w coord_origem coord_destino, s1))
           | Inl e \<Rightarrow> (calcular_distancia_haversine w coord_origem coord_destino, s1)))"

subsection \<open>Fee calculator (calcular_taxa_deslocamento, calcular_taxa_por_endereco)\<close>

record origem_info =
  origem_cep :: pystr
  origem_endereco :: pystr
  origem_lat :: real
  origem_lon :: real

text \<open>The \<open>destino\<close> part of the result has different keys on the two paths.\<close>

datatype destino_info =
    Destino_cep pystr pystr real real
  | Destino_endereco pystr pystr pystr pystr pystr real real

record distancia_info =
  ida_km :: real
  ida_volta_km :: real
  tempo_estimado_ida_minutos :: real
  metodo_calculo :: string

record calculo_info =
  franquia_km_ida :: real
  franquia_km_total :: real
  km_excedente :: real
  taxa_por_km :: real
  valor_taxa :: real

record sucesso =
  origem :: origem_info
  destino :: destino_info
  distancia :: distancia_info
  calculo :: calculo_info
  timestamp :: string

text \<open>
  The text of \<open>mensagem\<close>: \<open>str(e)\<close> of a caught exception, the message of
  \<open>CEP_INVALIDO\<close>, which quotes the CEP received, or a fixed text.
\<close>

datatype mensagem =
    Str_excecao error
  | Cep_recebido pystr
  | Texto_fixo

text \<open>A response dictionary: \<open>status = 'sucesso'\<close> or \<open>status = 'erro'\<close> with its \<open>codigo\<close>.\<close>

datatype resultado =
    Sucesso sucesso
  | Erro string mensagem

fun status_erro :: "resultado \<Rightarrow> bool" where
  "status_erro (Erro _ _) = True"
| "status_erro (Sucesso _) = False"

text \<open>The parts \<open>distancia\<close> and \<open>calculo\<close> of the result (lines 362-374, 440-452).\<close>

definition montar_distancia :: "estimativa \<Rightarrow> distancia_info" where
  "montar_distancia resultado_distancia =
     (let distancia_ida_km = distancia_metros resultado_distancia / 1000;
          duracao_minutos = duracao_segundos resultado_distancia / 60
      in \<lparr>ida_km = py_round distancia_ida_km 2,
          ida_volta_km = py_round (distancia_ida_km * 2) 2,
          tempo_estimado_ida_minutos = py_round duracao_minutos 0,
          metodo_calculo = metodo resultado_distancia\<rparr>)"

definition montar_calculo :: "estimativa \<Rightarrow> calculo_info" where
  "montar_calculo resultado_distancia =
     (let distancia_ida_km = distancia_metros resultado_distancia / 1000
      in case calcular_taxa distancia_ida_km of
           (km_exc, valor) \<Rightarrow>
             \<lparr>franquia_km_ida = FRANQUIA_KM_IDA,
              franquia_km_total = FRANQUIA_KM_TOTAL,
              km_excedente = py_round km_exc 2,
              taxa_por_km = TAXA_POR_KM,
              valor_taxa = py_round valor 2\<rparr>)"

definition montar_origem :: "coordenadas \<Rightarrow> origem_info" where
  "montar_origem coord_origem =
     \<lparr>origem_cep = CEP_ORIGEM, origem_endereco = endereco coord_origem,
      origem_lat = lat coord_origem, origem_lon = lon coord_origem\<rparr>"

text \<open>
  Both fee functions catch every exception and return the error dictionary
  \<open>ERRO_CALCULO\<close> (lines 381-387, 459-465). \<open>now\<close> is \<open>datetime.now().isoformat()\<close>.
\<close>

definition calcular_taxa_por_endereco ::
  "world \<Rightarrow> string \<Rightarrow> pystr \<Rightarrow> estado \<Rightarrow> resultado \<times> estado" where
  "calcular_taxa_por_endereco w now endereco_destino s =
     (case obter_coordenadas_viacep w CEP_ORIGEM s of
        (Inl e, s1) \<Rightarrow> (Erro ''ERRO_CALCULO'' (Str_excecao e), s1)
      | (Inr coord_origem, s1) \<Rightarrow>
          (case obter_coordenadas_por_endereco w endereco_destino s1 of
             (Inl e, s2) \<Rightarrow> (Erro ''ERRO_CALCULO'' (Str_excecao e), s2)
           | (Inr coord_destino, s2) \<Rightarrow>
               (case calcular_distancia_osrm w coord_origem coord_destino s2 of
                  (Inl e, s3) \<Rightarrow> (Erro ''ERRO_CALCULO'' (Str_excecao e), s3)
                | (Inr resultado_distancia, s3) \<Rightarrow>
                    (case cep coord_destino of
                       None \<Rightarrow> (Erro ''ERRO_CALCULO'' (Str_excecao (KeyError ''cep'')), s3)
                     | Some cep_encontrado \<Rightarrow>
                         (Sucesso
                            \<lparr>origem = montar_origem coord_origem,
                             destino = Destino_endereco endereco_destino
                                         (endereco coord_destino) (cidade coord_destino)
                                         (uf coord_destino) cep_encontrado
                                         (lat coord_destino) (lon coord_destino),
                             distancia = montar_distancia resultado_distancia,
                             calculo = montar_calculo resultado_distancia,
                             timestamp = now\<rparr>, s3)))))"

definition calcular_taxa_deslocamento ::
  "world \<Rightarrow> string \<Rightarrow> pystr \<Rightarrow> estado \<Rightarrow> resultado \<times> estado" where
  "calcular_taxa_deslocamento w now cep_destino s =
     (let cep_destino_formatado = formatar_cep w cep_destino
      in case obter_coordenadas_viacep w CEP_ORIGEM s of
           (Inl e, s1) \<Rightarrow> (Erro ''ERRO_CALCULO'' (Str_excecao e), s1)
         | (Inr coord_origem, s1) \<Rightarrow>
             (case obter_coordenadas_viacep w cep_destino s1 of
                (Inl e, s2) \<Rightarrow> (Erro ''ERRO_CALCULO'' (Str_excecao e), s2)
              | (Inr coord_destino, s2) \<Rightarrow>
                  (case calcular_distancia_osrm w coord_origem coord_destino s2 of
                     (Inl e, s3) \<Rightarrow> (Erro ''ERRO_CALCULO'' (Str_excecao e), s3)
                   | (Inr resultado_distancia, s3) \<Rightarrow>
                       (Sucesso
                          \<lparr>origem = montar_origem coord_origem,
                           destino = Destino_cep cep_destino_formatado
                                       (endereco coord_destino)
                                       (lat coord_destino) (lon coord_destino),
                           distancia = montar_distancia resultado_distancia,
                           calculo = montar_calculo resultado_distancia,
                           timestamp = now\<rparr>, s3))))"

subsection \<open>HTTP endpoints (calcular, teste, teste_endereco)\<close>

text \<open>
  The value under a key of the body: a string, or a JSON number, boolean or null
  (\<open>Nao_texto\<close>), on which \<open>data['endereco'].strip()\<close> raises \<open>AttributeError\<close> and
  \<open>limpar_cep\<close> raises \<open>TypeError\<close>. Arrays and objects under these keys are not
  modelled.
\<close>

datatype valor =
    Texto pystr
  | Nao_texto

text \<open>
  The parsed JSON body of \<open>POST /calcular\<close>: \<open>Corpo_vazio\<close> is a body for which
  \<open>not data\<close> holds; \<open>Corpo e c\<close> is a non-empty object whose keys \<open>'endereco'\<close> and
  \<open>'cep'\<close> are present (\<open>Some\<close>) or absent (\<open>None\<close>); \<open>Corpo_ilegivel\<close> is a body on
  which \<open>request.get_json()\<close> raises. Every exception within the handler is turned
  into the status 500 by lines 619-625. Bodies that are non-empty JSON values other
  than objects are not modelled.
\<close>

datatype corpo =
    Corpo_ilegivel
  | Corpo_vazio
  | Corpo "valor option" "valor option"

text \<open>The tail of the three endpoints: status 400 for an error dictionary, 200 otherwise.\<close>

definition responder :: "resultado \<times> estado \<Rightarrow> (resultado \<times> int) \<times> estado" where
  "responder rs = (case rs of (r, s') \<Rightarrow> ((r, if status_erro r then 400 else 200), s'))"

definition calcular ::
  "world \<Rightarrow> string \<Rightarrow> corpo \<Rightarrow> estado \<Rightarrow> (resultado \<times> int) \<times> estado" where
  "calcular w now data s =
     (case data of
        Corpo_ilegivel \<Rightarrow> ((Erro ''ERRO_SERVIDOR'' Texto_fixo, 500), s)
      | Corpo_vazio \<Rightarrow> ((Erro ''DADOS_OBRIGATORIOS'' Texto_fixo, 400), s)
      | Corpo campo_endereco campo_cep \<Rightarrow>
          (case campo_endereco of
             Some Nao_texto \<Rightarrow> ((Erro ''ERRO_SERVIDOR'' Texto_fixo, 500), s)
           | Some (Texto e) \<Rightarrow>
               (let endereco_v = strip w e
                in if endereco_v = [] then ((Erro ''ENDERECO_VAZIO'' Texto_fixo, 400), s)
                   else responder (calcular_taxa_por_endereco w now endereco_v s))
           | None \<Rightarrow>
               (case campo_cep of
                  Some Nao_texto \<Rightarrow> ((Erro ''ERRO_SERVIDOR'' Texto_fixo, 500), s)
                | Some (Texto c) \<Rightarrow>
                    (let cep_limpo = limpar_cep w c
                     in if length cep_limpo \<noteq> 8
                        then ((Erro ''CEP_INVALIDO'' (Cep_recebido c), 400), s)
                        else responder (calcular_taxa_deslocamento w now c s))
                | None \<Rightarrow> ((Erro ''PARAMETRO_INVALIDO'' Texto_fixo, 400), s))))"

text \<open>
  \<open>POST /limpar-cache\<close> (lines 655-666): the number of entries removed, reported in the
  message, and the state with an empty cache.
\<close>

definition limpar_cache :: "estado \<Rightarrow> nat \<times> estado" where
  "limpar_cache s =
     (let tamanho_anterior = card (dom (CACHE_COORDENADAS s))
      in (tamanho_anterior, s\<lparr>CACHE_COORDENADAS := Map.empty\<rparr>))"

definition teste :: "world \<Rightarrow> string \<Rightarrow> pystr \<Rightarrow> estado \<Rightarrow> (resultado \<times> int) \<times> estado" where
  "teste w now cep_str s = responder (calcular_taxa_deslocamento w now cep_str s)"

definition teste_endereco ::
  "world \<Rightarrow> string \<Rightarrow> pystr \<Rightarrow> estado \<Rightarrow> (resultado \<times> int) \<times> estado" where
  "teste_endereco w now endereco_str s =
     responder (calcular_taxa_por_endereco w now endereco_str s)"

section \<open>The specification's notions\<close>

text \<open>
  The definitions of this section are written from the specification, to be compared
  with the functions of the code above.
\<close>

subsection \<open>Great-circle distance and routing failure\<close>

text \<open>The haversine function and the haversine formula on a sphere of radius 6,371,000 m.\<close>

definition hav :: "real \<Rightarrow> real" where
  "hav \<theta> = (1 - cos \<theta>) / 2"

definition distancia_grande_circulo :: "real \<Rightarrow> real \<Rightarrow> real \<Rightarrow> real \<Rightarrow> real" where
  "distancia_grande_circulo lat1 lon1 lat2 lon2 =
     (let phi1 = lat1 * pi / 180; phi2 = lat2 * pi / 180;
          lambda1 = lon1 * pi / 180; lambda2 = lon2 * pi / 180
      in 2 * 6371000 *
           arcsin (sqrt (hav (phi2 - phi1) + cos phi1 * cos phi2 * hav (lambda2 - lambda1))))"

text \<open>
  The routing query fails: the request raises, the status is not 200, the body is not
  JSON, the response code is not \<open>Ok\<close>, the route list is empty, or a key the code reads
  is missing.
\<close>

definition osrm_falhou :: "error + osrm_data http_response \<Rightarrow> bool" where
  "osrm_falhou resposta =
     (case resposta of
        Inl e \<Rightarrow> True
      | Inr response \<Rightarrow>
          status_code response \<noteq> 200 \<or>
          (case json response of
             Inl e \<Rightarrow> True
           | Inr data \<Rightarrow>
               code data \<noteq> Some (lit ''Ok'') \<or>
               (case routes data of
                  None \<Rightarrow> True
                | Some [] \<Rightarrow> True
                | Some (r # _) \<Rightarrow> distance r = None \<or> duration r = None)))"

subsection \<open>The resolver contract\<close>

text \<open>
  \<open>resolve(identifier)\<close> of the specification: the identifier is a postal code or an
  address, and \<open>chave\<close> is its normalized cache key.
\<close>

datatype identificador =
    Por_cep pystr
  | Por_endereco pystr

fun resolve :: "world \<Rightarrow> identificador \<Rightarrow> estado \<Rightarrow> (error + coordenadas) \<times> estado" where
  "resolve w (Por_cep c) s = obter_coordenadas_viacep w c s"
| "resolve w (Por_endereco e) s = obter_coordenadas_por_endereco w e s"

fun chave :: "world \<Rightarrow> identificador \<Rightarrow> pystr" where
  "chave w (Por_cep c) = limpar_cep w c"
| "chave w (Por_endereco e) = chave_endereco w e"

text \<open>
  What the service does between two resolutions, short of emptying the cache: other
  resolutions, distance estimates, and requests to the three calculating endpoints,
  whatever their outcomes.
\<close>

datatype operacao =
    Resolver identificador
  | Estimar coordenadas coordenadas
  | Post_calcular corpo
  | Get_teste pystr
  | Get_teste_endereco pystr

fun executar_op :: "world \<Rightarrow> string \<Rightarrow> operacao \<Rightarrow> estado \<Rightarrow> estado" where
  "executar_op w now (Resolver i) s = snd (resolve w i s)"
| "executar_op w now (Estimar a b) s = snd (calcular_distancia_osrm w a b s)"
| "executar_op w now (Post_calcular d) s = snd (calcular w now d s)"
| "executar_op w now (Get_teste c) s = snd (teste w now c s)"
| "executar_op w now (Get_teste_endereco e) s = snd (teste_endereco w now e s)"

fun executar :: "world \<Rightarrow> string \<Rightarrow> operacao list \<Rightarrow> estado \<Rightarrow> estado" where
  "executar w now [] s = s"
| "executar w now (x # xs) s = executar w now xs (executar_op w now x s)"

subsection \<open>The resolution chain of the postal-code path\<close>

text \<open>
  An attempt yields a Coordinate, nothing, or an exception; a chain tries its attempts
  in order and stops at the first that does not yield nothing.
\<close>

type_synonym tentativa = "estado \<Rightarrow> (error + coordenadas option) \<times> estado"

fun primeira_que_resolve :: "tentativa list \<Rightarrow> tentativa" where
  "primeira_que_resolve [] s = (Inr None, s)"
| "primeira_que_resolve (t # ts) s =
     (case t s of
        (Inr None, s1) \<Rightarrow> primeira_que_resolve ts s1
      | (r, s1) \<Rightarrow> (r, s1))"

text \<open>
  Geocoding a query: no result is a status other than 200 or an empty candidate list;
  otherwise the first candidate gives latitude and longitude.
\<close>

definition geocodificar ::
  "world \<Rightarrow> pystr \<Rightarrow> (real \<Rightarrow> real \<Rightarrow> coordenadas) \<Rightarrow> tentativa" where
  "geocodificar w q montar s =
     (case get_nominatim w q False s of
        (Inl e, s1) \<Rightarrow> (Inl e, s1)
      | (Inr response, s1) \<Rightarrow>
          if status_code response \<noteq> 200 then (Inr None, s1)
          else (case json response of
                  Inl e \<Rightarrow> (Inl e, s1)
                | Inr [] \<Rightarrow> (Inr None, s1)
                | Inr (p # _) \<Rightarrow>
                    (case (place_lat p, place_lon p) of
                       (Inr la, Inr lo) \<Rightarrow> (Inr (Some (montar la lo)), s1)
                     | (Inl e, _) \<Rightarrow> (Inl e, s1)
                     | (_, Inl e) \<Rightarrow> (Inl e, s1))))"

text \<open>The static table, matched on the first \<open>n\<close> digits of the postal code.\<close>

definition consultar_tabela ::
  "nat \<Rightarrow> pystr \<Rightarrow> (real \<Rightarrow> real \<Rightarrow> coordenadas) \<Rightarrow> tentativa" where
  "consultar_tabela n digitos montar s =
     (case map_of coordenadas_cidades (take n digitos) of
        None \<Rightarrow> (Inr None, s)
      | Some (la, lo) \<Rightarrow> (Inr (Some (montar la lo)), s))"

text \<open>The two geocoding queries.\<close>

definition consulta_completa :: "dados_viacep \<Rightarrow> pystr" where
  "consulta_completa d =
     logradouro d @ lit '', '' @ bairro d @ lit '', '' @ localidade d @ lit '', ''
       @ uf_cep d @ lit '', Brazil''"

definition consulta_cidade :: "dados_viacep \<Rightarrow> pystr" where
  "consulta_cidade d = localidade d @ lit '', '' @ uf_cep d @ lit '', Brazil''"

text \<open>
  The first query when the street-level address is used only for a registry entry that
  has a street name.
\<close>

definition consulta_com_logradouro :: "dados_viacep \<Rightarrow> pystr" where
  "consulta_com_logradouro d =
     (if logradouro d = [] then consulta_cidade d else consulta_completa d)"

text \<open>The Coordinate each stage builds from the registry entry.\<close>

definition coordenada_de ::
  "pystr \<Rightarrow> dados_viacep \<Rightarrow> real \<Rightarrow> real \<Rightarrow> coordenadas" where
  "coordenada_de texto d la lo =
     \<lparr>lat = la, lon = lo, endereco = texto, cidade = localidade d, uf = uf_cep d, cep = None\<rparr>"

definition texto_endereco :: "dados_viacep \<Rightarrow> pystr" where
  "texto_endereco d =
     strip_where (\<lambda>c. c = of_char (CHR '','') \<or> c = of_char (CHR '' ''))
       (logradouro d @ lit '', '' @ bairro d @ lit '', '' @ localidade d @ lit ''-''
          @ uf_cep d)"

definition texto_cidade :: "dados_viacep \<Rightarrow> pystr" where
  "texto_cidade d = localidade d @ lit ''-'' @ uf_cep d"

text \<open>The registry's answer: the entry, or the failure of an unknown postal code.\<close>

definition registro :: "pystr \<Rightarrow> dados_viacep http_response \<Rightarrow> error + dados_viacep" where
  "registro cep_str response =
     (if status_code response \<noteq> 200 then Inl (CEP_nao_encontrado cep_str)
      else (case json response of
              Inl e \<Rightarrow> Inl e
            | Inr d \<Rightarrow> if erro d then Inl (CEP_invalido cep_str) else Inr d))"

text \<open>
  The end of the chain: a Coordinate found is cached under the normalized postal code;
  when no attempt found one, the resolution fails.
\<close>

definition concluir ::
  "pystr \<Rightarrow> pystr \<Rightarrow> (error + coordenadas option) \<times> estado
     \<Rightarrow> (error + coordenadas) \<times> estado" where
  "concluir cep_str digitos out =
     (case out of
        (Inl e, s2) \<Rightarrow> (Inl e, s2)
      | (Inr None, s2) \<Rightarrow> (Inl (Coordenadas_indisponiveis cep_str), s2)
      | (Inr (Some c), s2) \<Rightarrow>
          (Inr c, s2\<lparr>CACHE_COORDENADAS := (CACHE_COORDENADAS s2)(digitos \<mapsto> c)\<rparr>))"

text \<open>
  The chain, with the first geocoding query as a parameter: cache, registry, first
  query, city and state, table by 5 digits, table by 2 digits.
\<close>

definition cadeia_resolucao ::
  "(dados_viacep \<Rightarrow> pystr) \<Rightarrow> world \<Rightarrow> pystr \<Rightarrow> estado \<Rightarrow> (error + coordenadas) \<times> estado" where
  "cadeia_resolucao primeira_consulta w cep_str s =
     (let digitos = limpar_cep w cep_str
      in case CACHE_COORDENADAS s digitos of
           Some c \<Rightarrow> (Inr c, s)
         | None \<Rightarrow>
             (case get_viacep w digitos s of
                (Inl e, s1) \<Rightarrow> (Inl e, s1)
              | (Inr response, s1) \<Rightarrow>
                  (case registro cep_str response of
                     Inl e \<Rightarrow> (Inl e, s1)
                   | Inr d \<Rightarrow>
                       concluir cep_str digitos
                         (primeira_que_resolve
                            [geocodificar w (primeira_consulta d)
                               (coordenada_de (texto_endereco d) d),
                             geocodificar w (consulta_cidade d)
                               (coordenada_de (texto_cidade d) d),
                             consultar_tabela 5 digitos
                               (coordenada_de (texto_cidade d @ lit '' (aproximado)'') d),
                             consultar_tabela 2 digitos
                               (coordenada_de (texto_cidade d @ lit '' (aproximado)'') d)]
                            s1))))"

subsection \<open>The effect of a resolution on the cache\<close>

text \<open>
  A resolution that fails leaves the cache as it was; one that succeeds stores its
  result under the key \<open>k\<close>.
\<close>

definition efeito_cache ::
  "pystr \<Rightarrow> estado \<Rightarrow> (error + coordenadas) \<times> estado \<Rightarrow> bool" where
  "efeito_cache k s out =
     (case out of
        (Inl e, s') \<Rightarrow> CACHE_COORDENADAS s' = CACHE_COORDENADAS s
      | (Inr r, s') \<Rightarrow> CACHE_COORDENADAS s' = (CACHE_COORDENADAS s)(k \<mapsto> r))"

section \<open>Example inputs\<close>

text \<open>
  The Python runtime of the examples: \<open>str.isdigit\<close>, \<open>str.isspace\<close> and \<open>str.lower\<close> as
  they are on the code points below U+0100, and unspecified on the others, which no
  example uses.
\<close>

definition isdigit_exemplo :: "nat \<Rightarrow> bool" where
  "isdigit_exemplo c =
     (if c < 256 then (48 \<le> c \<and> c \<le> 57) \<or> c = 0xB2 \<or> c = 0xB3 \<or> c = 0xB9
      else undefined c)"

definition isspace_exemplo :: "nat \<Rightarrow> bool" where
  "isspace_exemplo c =
     (if c < 256 then (9 \<le> c \<and> c \<le> 13) \<or> (28 \<le> c \<and> c \<le> 32) \<or> c = 0x85 \<or> c = 0xA0
      else undefined c)"

definition lower_exemplo :: "pystr \<Rightarrow> pystr" where
  "lower_exemplo s =
     (if list_all (\<lambda>c. c < 256) s
      then map (\<lambda>c. if (65 \<le> c \<and> c \<le> 90) \<or> (0xC0 \<le> c \<and> c \<le> 0xDE \<and> c \<noteq> 0xD7)
                     then c + 32 else c) s
      else undefined s)"

text \<open>
  The float unit of the examples. In IEEE double arithmetic lines 284-290 give
  \<open>a = 1.0000000000000002\<close>, that is \<open>1 + 2\<^sup>-\<^sup>5\<^sup>2\<close>, for the antipodal points
  (-59.4128, -61.6419) and (59.4128, 118.3581), where the exact value is 1; the
  rounding error at other coordinates is left unspecified.
\<close>

definition erro_a_exemplo :: "coordenadas \<Rightarrow> coordenadas \<Rightarrow> real" where
  "erro_a_exemplo c1 c2 =
     (if lat c1 = -59.4128 \<and> lon c1 = -61.6419 \<and> lat c2 = 59.4128 \<and> lon c2 = 118.3581
      then 1 / 2 ^ 52
      else undefined c1 c2)"

text \<open>A process that has just started: empty cache, no request issued.\<close>

definition estado_inicial :: estado where
  "estado_inicial = \<lparr>CACHE_COORDENADAS = Map.empty, requisicoes = []\<rparr>"

definition bauru :: dados_viacep where
  "bauru = \<lparr>erro = False, logradouro = lit ''Rua A'', bairro = lit ''Centro'',
            localidade = lit ''Bauru'', uf_cep = lit ''SP''\<rparr>"

definition lugar_bauru :: place where
  "lugar_bauru =
     \<lparr>place_lat = Inr (-22.3155), place_lon = Inr (-49.0708),
      display_name = Some (lit ''Bauru, Sao Paulo, Brasil''),
      address = Some (sem_address\<lparr>city := Some (lit ''Bauru''),
                                  state := Some (lit ''Sao Paulo''),
                                  postcode := Some (lit ''17017-337'')\<rparr>)\<rparr>"

text \<open>
  All three services answer: the registry knows every code of 8 characters and answers
  400 to any other, the geocoder finds every query, and the router reports a route of
  50 km and 50 minutes.
\<close>

definition mundo_ok :: world where
  "mundo_ok =
     \<lparr>viacep = (\<lambda>t c. if length c = 8 then Inr \<lparr>status_code = 200, json = Inr bauru\<rparr>
                       else Inr \<lparr>status_code = 400, json = Inl JSONDecodeError\<rparr>),
      nominatim = (\<lambda>t q d. Inr \<lparr>status_code = 200, json = Inr [lugar_bauru]\<rparr>),
      osrm = (\<lambda>t lon1 lat1 lon2 lat2.
                Inr \<lparr>status_code = 200,
                     json = Inr \<lparr>code = Some (lit ''Ok''),
                                 routes = Some [\<lparr>distance = Some 50000,
                                                 duration = Some 3000\<rparr>]\<rparr>\<rparr>),
      str_isdigit = isdigit_exemplo, str_isspace = isspace_exemplo,
      str_lower = lower_exemplo, erro_a = erro_a_exemplo\<rparr>"


text \<open>No service is reachable: every request raises.\<close>

definition mundo_sem_rede :: world where
  "mundo_sem_rede =
     mundo_ok\<lparr>viacep := (\<lambda>t c. Inl RequestException),
              nominatim := (\<lambda>t q d. Inl RequestException),
              osrm := (\<lambda>t lon1 lat1 lon2 lat2. Inl RequestException)\<rparr>"

text \<open>As \<open>mundo_ok\<close> for the first two requests; after them no service is reachable.\<close>

definition mundo_que_cai :: world where
  "mundo_que_cai =
     mundo_ok\<lparr>viacep := (\<lambda>t c. if t < 2 then viacep mundo_ok t c else Inl RequestException),
              nominatim := (\<lambda>t q d. if t < 2 then nominatim mundo_ok t q d
                                     else Inl RequestException),
              osrm := (\<lambda>t lon1 lat1 lon2 lat2. Inl RequestException)\<rparr>"

text \<open>
  The registry entry of a city-wide postal code, which has no street name, and a
  geocoder that finds the city but no other query.
\<close>

definition agudos :: dados_viacep where
  "agudos = \<lparr>erro = False, logradouro = [], bairro = [],
             localidade = lit ''Agudos'', uf_cep = lit ''SP''\<rparr>"

definition mundo_agudos :: world where
  "mundo_agudos =
     mundo_ok
       \<lparr>viacep := (\<lambda>t c. Inr \<lparr>status_code = 200, json = Inr agudos\<rparr>),
        nominatim := (\<lambda>t q d. if q = lit ''Agudos, SP, Brazil''
                               then Inr \<lparr>status_code = 200,
                                         json = Inr [\<lparr>place_lat = Inr (-22.4694),
                                                      place_lon = Inr (-48.9878),
                                                      display_name = None,
                                                      address = None\<rparr>]\<rparr>
                               else Inr \<lparr>status_code = 200, json = Inr []\<rparr>),
        osrm := (\<lambda>t lon1 lat1 lon2 lat2. Inl RequestException)\<rparr>"

text \<open>Resolved coordinates: Bauru, and two antipodal points.\<close>

definition coord_bauru :: coordenadas where
  "coord_bauru = \<lparr>lat = -22.3155, lon = -49.0708, endereco = lit ''Rua A, Centro, Bauru-SP'',
                  cidade = lit ''Bauru'', uf = lit ''SP'', cep = None\<rparr>"



section \<open>Properties\<close>

subsection \<open>Rounding\<close>

lemma round_half_even_bounds:
  "\<lfloor>x\<rfloor> \<le> round_half_even x \<and> round_half_even x \<le> \<lfloor>x\<rfloor> + 1"
  by (simp add: round_half_even_def Let_def)

lemma round_half_even_nonneg: "0 \<le> x \<Longrightarrow> 0 \<le> round_half_even x"
proof -
  assume "0 \<le> x"
  then have "0 \<le> \<lfloor>x\<rfloor>" by simp
  with round_half_even_bounds [of x] show ?thesis by linarith
qed

lemma round_half_even_mono:
  assumes "x \<le> y"
  shows "round_half_even x \<le> round_half_even y"
proof (cases "\<lfloor>x\<rfloor> = \<lfloor>y\<rfloor>")
  case True
  with assms show ?thesis
    by (auto simp add: round_half_even_def Let_def)
next
  case False
  from assms have "\<lfloor>x\<rfloor> \<le> \<lfloor>y\<rfloor>" by (rule floor_mono)
  with False have "\<lfloor>x\<rfloor> + 1 \<le> \<lfloor>y\<rfloor>" by simp
  with round_half_even_bounds [of x] round_half_even_bounds [of y] show ?thesis
    by linarith
qed

lemma py_round_nonneg: "0 \<le> x \<Longrightarrow> 0 \<le> py_round x n"
  by (simp add: py_round_def round_half_even_nonneg)

lemma py_round_mono: "x \<le> y \<Longrightarrow> py_round x n \<le> py_round y n"
  by (simp add: py_round_def round_half_even_mono divide_right_mono)

lemma py_round_zero: "py_round 0 n = 0"
  by (simp add: py_round_def round_half_even_def)

subsection \<open>The fee rule\<close>

lemma calcular_taxa_eq:
  "calcular_taxa d = (if d > 30 then (2 * d - 60, (2 * d - 60) * 1.60) else (0, 0))"
  by (simp add: calcular_taxa_def FRANQUIA_KM_IDA_def FRANQUIA_KM_TOTAL_def TAXA_POR_KM_def)

lemma valor_taxa_nonneg: "0 \<le> snd (calcular_taxa d)"
  by (simp add: calcular_taxa_eq)

lemma valor_taxa_mono: "d1 \<le> d2 \<Longrightarrow> snd (calcular_taxa d1) \<le> snd (calcular_taxa d2)"
  by (simp add: calcular_taxa_eq)

lemma montar_calculo_campos:
  "km_excedente (montar_calculo est) = py_round (fst (calcular_taxa (distancia_metros est / 1000))) 2"
  "valor_taxa (montar_calculo est) = py_round (snd (calcular_taxa (distancia_metros est / 1000))) 2"
  by (simp_all add: montar_calculo_def Let_def split: prod.splits)


text \<open>A successful calculation reports the estimate the distance estimator returned.\<close>

lemma calcular_taxa_deslocamento_Sucesso:
  assumes "calcular_taxa_deslocamento w now c s = (Sucesso r, s')"
  shows "\<exists>co cd s2 est. calcular_distancia_osrm w co cd s2 = (Inr est, s')
           \<and> distancia r = montar_distancia est \<and> calculo r = montar_calculo est"
  using assms
  by (fastforce simp add: calcular_taxa_deslocamento_def Let_def
        split: prod.splits sum.splits)

lemma calcular_taxa_por_endereco_Sucesso:
  assumes "calcular_taxa_por_endereco w now e s = (Sucesso r, s')"
  shows "\<exists>co cd s2 est. calcular_distancia_osrm w co cd s2 = (Inr est, s')
           \<and> distancia r = montar_distancia est \<and> calculo r = montar_calculo est"
  using assms
  by (fastforce simp add: calcular_taxa_por_endereco_def Let_def
        split: prod.splits sum.splits option.splits)

subsection \<open>Evaluating the example inputs\<close>

lemmas avaliar_resolver =
  obter_coordenadas_viacep_def obter_coordenadas_por_endereco_def
  buscar_endereco_def buscar_cidade_def buscar_tabela_def endereco_busca_cep_def
  get_viacep_def get_nominatim_def primeiro_resultado_def guardar_no_cache_def
  limpar_cep_def CEP_ORIGEM_def chave_endereco_def strip_def strip_where_def lit_def
  isdigit_exemplo_def isspace_exemplo_def lower_exemplo_def get_or_def sem_address_def
  coordenadas_cidades_def estado_inicial_def Let_def

lemmas avaliar_taxa =
  calcular_taxa_deslocamento_def calcular_taxa_por_endereco_def calcular_distancia_osrm_def
  get_osrm_def rota_osrm_def montar_origem_def montar_distancia_def montar_calculo_def
  calcular_taxa_eq formatar_cep_def py_round_def round_half_even_def
  FRANQUIA_KM_IDA_def FRANQUIA_KM_TOTAL_def TAXA_POR_KM_def

lemma mundo_ok_campos:
  "viacep mundo_ok t c =
     (if length c = 8 then Inr \<lparr>status_code = 200, json = Inr bauru\<rparr>
      else Inr \<lparr>status_code = 400, json = Inl JSONDecodeError\<rparr>)"
  "nominatim mundo_ok t q d = Inr \<lparr>status_code = 200, json = Inr [lugar_bauru]\<rparr>"
  "osrm mundo_ok t lon1 lat1 lon2 lat2 =
     Inr \<lparr>status_code = 200,
          json = Inr \<lparr>code = Some (lit ''Ok''),
                      routes = Some [\<lparr>distance = Some 50000, duration = Some 3000\<rparr>]\<rparr>\<rparr>"
  "str_isdigit mundo_ok = isdigit_exemplo"
  "str_isspace mundo_ok = isspace_exemplo"
  "str_lower mundo_ok = lower_exemplo"
  "erro_a mundo_ok = erro_a_exemplo"
  by (simp_all add: mundo_ok_def)

lemma mundo_sem_rede_campos:
  "viacep mundo_sem_rede t c = Inl RequestException"
  "nominatim mundo_sem_rede t q d = Inl RequestException"
  "osrm mundo_sem_rede t lon1 lat1 lon2 lat2 = Inl RequestException"
  "str_isdigit mundo_sem_rede = isdigit_exemplo"
  "str_isspace mundo_sem_rede = isspace_exemplo"
  "str_lower mundo_sem_rede = lower_exemplo"
  "erro_a mundo_sem_rede = erro_a_exemplo"
  by (simp_all add: mundo_sem_rede_def mundo_ok_def)


lemma execucao_endereco_50km:
  "\<exists>r s'. calcular_taxa_por_endereco mundo_ok ''2026-01-01T00:00:00'' (lit ''Rua A, Bauru'')
             estado_inicial
             = (Sucesso r, s')
         \<and> ida_km (distancia r) = 50 \<and> ida_volta_km (distancia r) = 100
         \<and> km_excedente (calculo r) = 40 \<and> valor_taxa (calculo r) = 64"
  by (simp add: avaliar_resolver avaliar_taxa mundo_ok_campos bauru_def lugar_bauru_def)

subsection \<open>Fee formula\<close>



subsection \<open>Monotonicity and sign of the fee\<close>

text \<open>
  C6. The fee is a non-decreasing function of the one-way distance, before and after
  the rounding of the result dictionary, and it is 0 up to 30 km. The origin is the
  constant \<open>CEP_ORIGEM\<close>; the fee depends on the destination through the distance only.
\<close>

theorem fee_monotone:
  "(d1 \<le> d2 \<longrightarrow> snd (calcular_taxa d1) \<le> snd (calcular_taxa d2))
   \<and> (distancia_metros est1 \<le> distancia_metros est2 \<longrightarrow>
        valor_taxa (montar_calculo est1) \<le> valor_taxa (montar_calculo est2))
   \<and> (d \<le> 30 \<longrightarrow> snd (calcular_taxa d) = 0)
   \<and> (distancia_metros est \<le> 30000 \<longrightarrow> valor_taxa (montar_calculo est) = 0)"
  by (auto simp add: montar_calculo_campos valor_taxa_mono py_round_mono py_round_zero
        calcular_taxa_eq divide_right_mono)

theorem fee_monotone_witness:
  "(2::real) \<le> 50
   \<and> snd (calcular_taxa 2) \<le> snd (calcular_taxa 50)
   \<and> snd (calcular_taxa 2) = 0 \<and> snd (calcular_taxa 50) = 64
   \<and> valor_taxa (montar_calculo \<lparr>distancia_metros = 2000, duracao_segundos = 120,
                                   metodo = ''osrm''\<rparr>)
       \<le> valor_taxa (montar_calculo \<lparr>distancia_metros = 50000, duracao_segundos = 3000,
                                     metodo = ''osrm''\<rparr>)
   \<and> valor_taxa (montar_calculo \<lparr>distancia_metros = 2000, duracao_segundos = 120,
                                   metodo = ''osrm''\<rparr>) = 0"
  using fee_monotone [of 2 50
      "\<lparr>distancia_metros = 2000, duracao_segundos = 120, metodo = ''osrm''\<rparr>"
      "\<lparr>distancia_metros = 50000, duracao_segundos = 3000, metodo = ''osrm''\<rparr>"
      2 "\<lparr>distancia_metros = 2000, duracao_segundos = 120, metodo = ''osrm''\<rparr>"]
  by (simp add: calcular_taxa_eq)

text \<open>
  C7. The fee of every successful calculation, by postal code or by address, is not
  negative, whatever distance the estimator reported.
\<close>

theorem fee_nonneg:
  assumes "calcular_taxa_deslocamento w now ident s = (Sucesso r, s')
           \<or> calcular_taxa_por_endereco w now ident s = (Sucesso r, s')"
  shows "0 \<le> valor_taxa (calculo r)"
proof -
  from assms obtain est where "calculo r = montar_calculo est"
    using calcular_taxa_deslocamento_Sucesso calcular_taxa_por_endereco_Sucesso by blast
  then show ?thesis
    by (simp add: montar_calculo_campos py_round_nonneg valor_taxa_nonneg)
qed

theorem fee_nonneg_witness:
  "\<exists>r s'. calcular_taxa_por_endereco mundo_ok ''2026-01-01T00:00:00'' (lit ''Rua A, Bauru'')
             estado_inicial
             = (Sucesso r, s')
         \<and> 0 \<le> valor_taxa (calculo r)"
proof -
  from execucao_endereco_50km obtain r s' where
    run: "calcular_taxa_por_endereco mundo_ok ''2026-01-01T00:00:00'' (lit ''Rua A, Bauru'')
            estado_inicial
            = (Sucesso r, s')"
    by blast
  from fee_nonneg [OF disjI2, OF run] run show ?thesis by blast
qed

subsection \<open>The cache\<close>

lemma efeito_buscar_tabela: "efeito_cache k s (buscar_tabela c k d s)"
  by (auto simp add: efeito_cache_def buscar_tabela_def guardar_no_cache_def Let_def
        split: option.splits)

lemma efeito_requisicoes:
  "efeito_cache k (s\<lparr>requisicoes := l\<rparr>) out \<Longrightarrow> efeito_cache k s out"
  by (simp add: efeito_cache_def split: prod.splits sum.splits)

lemma efeito_buscar_cidade: "efeito_cache k s (buscar_cidade w c k d s)"
proof -
  have "efeito_cache k s
          (buscar_tabela c k d
             (s\<lparr>requisicoes := requisicoes s @ [Get_nominatim q False]\<rparr>))" for q
    by (rule efeito_requisicoes) (rule efeito_buscar_tabela)
  then show ?thesis
    by (auto simp add: buscar_cidade_def get_nominatim_def guardar_no_cache_def
          efeito_cache_def [of k s "(Inl _, _)"] efeito_cache_def [of k s "(Inr _, _)"]
          split: sum.splits option.splits)
qed

lemma efeito_buscar_endereco: "efeito_cache k s (buscar_endereco w c k d s)"
proof -
  have "efeito_cache k s
          (buscar_cidade w c k d
             (s\<lparr>requisicoes := requisicoes s @ [Get_nominatim q False]\<rparr>))" for q
    by (rule efeito_requisicoes) (rule efeito_buscar_cidade)
  then show ?thesis
    by (auto simp add: buscar_endereco_def get_nominatim_def guardar_no_cache_def
          efeito_cache_def [of k s "(Inl _, _)"] efeito_cache_def [of k s "(Inr _, _)"]
          split: sum.splits option.splits)
qed

lemma obter_coordenadas_viacep_hit:
  "CACHE_COORDENADAS s (limpar_cep w c) = Some r \<Longrightarrow> obter_coordenadas_viacep w c s = (Inr r, s)"
  by (simp add: obter_coordenadas_viacep_def)

lemma obter_coordenadas_viacep_miss:
  assumes "CACHE_COORDENADAS s (limpar_cep w c) = None"
  shows "efeito_cache (limpar_cep w c) s (obter_coordenadas_viacep w c s)"
proof -
  have "efeito_cache (limpar_cep w c) s
          (buscar_endereco w c (limpar_cep w c) d
             (s\<lparr>requisicoes := requisicoes s @ [Get_viacep (limpar_cep w c)]\<rparr>))" for d
    by (rule efeito_requisicoes) (rule efeito_buscar_endereco)
  with assms show ?thesis
    by (auto simp add: obter_coordenadas_viacep_def get_viacep_def Let_def
          efeito_cache_def [of _ s "(Inl _, _)"]
          split: sum.splits)
qed

lemma obter_coordenadas_por_endereco_hit:
  "CACHE_COORDENADAS s (chave_endereco w e) = Some r \<Longrightarrow>
     obter_coordenadas_por_endereco w e s = (Inr r, s)"
  by (simp add: obter_coordenadas_por_endereco_def)

lemma obter_coordenadas_por_endereco_miss:
  assumes "CACHE_COORDENADAS s (chave_endereco w e) = None"
  shows "efeito_cache (chave_endereco w e) s (obter_coordenadas_por_endereco w e s)"
  using assms
  by (auto simp add: obter_coordenadas_por_endereco_def get_nominatim_def guardar_no_cache_def
        efeito_cache_def Let_def
        split: sum.splits option.splits)

lemma resolve_hit:
  "CACHE_COORDENADAS s (chave w i) = Some r \<Longrightarrow> resolve w i s = (Inr r, s)"
  by (cases i) (simp_all add: obter_coordenadas_viacep_hit obter_coordenadas_por_endereco_hit)

lemma resolve_miss:
  "CACHE_COORDENADAS s (chave w i) = None \<Longrightarrow> efeito_cache (chave w i) s (resolve w i s)"
  by (cases i) (simp_all add: obter_coordenadas_viacep_miss obter_coordenadas_por_endereco_miss)

lemma resolve_sucesso:
  assumes "resolve w i s = (Inr r, s')"
  shows "CACHE_COORDENADAS s' (chave w i) = Some r"
proof (cases "CACHE_COORDENADAS s (chave w i)")
  case None
  from resolve_miss [OF None] assms show ?thesis
    by (simp add: efeito_cache_def)
next
  case (Some v)
  from resolve_hit [OF Some] assms Some show ?thesis by simp
qed

lemma resolve_falha:
  assumes "resolve w i s = (Inl e, s')"
  shows "CACHE_COORDENADAS s' = CACHE_COORDENADAS s"
proof (cases "CACHE_COORDENADAS s (chave w i)")
  case None
  from resolve_miss [OF None] assms show ?thesis
    by (simp add: efeito_cache_def)
next
  case (Some v)
  from resolve_hit [OF Some] assms show ?thesis by simp
qed

lemma resolve_preserva:
  assumes "CACHE_COORDENADAS s k = Some v"
  shows "CACHE_COORDENADAS (snd (resolve w i s)) k = Some v"
proof (cases "CACHE_COORDENADAS s (chave w i)")
  case None
  with assms have "k \<noteq> chave w i" by auto
  with resolve_miss [OF None] assms show ?thesis
    by (cases "resolve w i s") (auto simp add: efeito_cache_def split: sum.splits)
next
  case (Some u)
  from resolve_hit [OF Some] assms show ?thesis by simp
qed

lemma calcular_distancia_osrm_cache:
  "CACHE_COORDENADAS (snd (calcular_distancia_osrm w a b s)) = CACHE_COORDENADAS s"
  by (simp add: calcular_distancia_osrm_def get_osrm_def split: sum.splits option.splits)

lemma obter_coordenadas_viacep_preserva:
  "CACHE_COORDENADAS s k = Some v \<Longrightarrow>
     CACHE_COORDENADAS (snd (obter_coordenadas_viacep w c s)) k = Some v"
  using resolve_preserva [of s k v w "Por_cep c"] by simp

lemma obter_coordenadas_por_endereco_preserva:
  "CACHE_COORDENADAS s k = Some v \<Longrightarrow>
     CACHE_COORDENADAS (snd (obter_coordenadas_por_endereco w e s)) k = Some v"
  using resolve_preserva [of s k v w "Por_endereco e"] by simp

lemma calcular_taxa_deslocamento_preserva:
  assumes "CACHE_COORDENADAS s k = Some v"
  shows "CACHE_COORDENADAS (snd (calcular_taxa_deslocamento w now c s)) k = Some v"
proof -
  obtain r1 s1 where 1: "obter_coordenadas_viacep w CEP_ORIGEM s = (r1, s1)"
    by (cases "obter_coordenadas_viacep w CEP_ORIGEM s")
  obtain r2 s2 where 2: "obter_coordenadas_viacep w c s1 = (r2, s2)"
    by (cases "obter_coordenadas_viacep w c s1")
  from obter_coordenadas_viacep_preserva [OF assms, of w CEP_ORIGEM] 1
  have k1: "CACHE_COORDENADAS s1 k = Some v" by simp
  from obter_coordenadas_viacep_preserva [OF k1, of w c] 2
  have k2: "CACHE_COORDENADAS s2 k = Some v" by simp
  have k3: "CACHE_COORDENADAS (snd (calcular_distancia_osrm w a b s2)) k = Some v" for a b
    by (simp add: calcular_distancia_osrm_cache k2)
  show ?thesis
    using 1 2 k1 k2 k3
    by (auto simp add: calcular_taxa_deslocamento_def Let_def
          split: sum.splits prod.splits dest: sndI)
qed

lemma calcular_taxa_por_endereco_preserva:
  assumes "CACHE_COORDENADAS s k = Some v"
  shows "CACHE_COORDENADAS (snd (calcular_taxa_por_endereco w now e s)) k = Some v"
proof -
  obtain r1 s1 where 1: "obter_coordenadas_viacep w CEP_ORIGEM s = (r1, s1)"
    by (cases "obter_coordenadas_viacep w CEP_ORIGEM s")
  obtain r2 s2 where 2: "obter_coordenadas_por_endereco w e s1 = (r2, s2)"
    by (cases "obter_coordenadas_por_endereco w e s1")
  from obter_coordenadas_viacep_preserva [OF assms, of w CEP_ORIGEM] 1
  have k1: "CACHE_COORDENADAS s1 k = Some v" by simp
  from obter_coordenadas_por_endereco_preserva [OF k1, of w e] 2
  have k2: "CACHE_COORDENADAS s2 k = Some v" by simp
  have k3: "CACHE_COORDENADAS (snd (calcular_distancia_osrm w a b s2)) k = Some v" for a b
    by (simp add: calcular_distancia_osrm_cache k2)
  show ?thesis
    using 1 2 k1 k2 k3
    by (auto simp add: calcular_taxa_por_endereco_def Let_def
          split: sum.splits prod.splits option.splits dest: sndI)
qed

lemma responder_snd: "snd (responder rs) = snd rs"
  by (simp add: responder_def split: prod.splits)

lemma calcular_preserva:
  "CACHE_COORDENADAS s k = Some v \<Longrightarrow>
     CACHE_COORDENADAS (snd (calcular w now d s)) k = Some v"
  by (simp add: calcular_def responder_snd Let_def calcular_taxa_deslocamento_preserva
        calcular_taxa_por_endereco_preserva
        split: corpo.splits option.splits valor.splits)

lemma executar_op_preserva:
  "CACHE_COORDENADAS s k = Some v \<Longrightarrow>
     CACHE_COORDENADAS (executar_op w now x s) k = Some v"
  by (cases x)
    (simp_all add: resolve_preserva calcular_distancia_osrm_cache calcular_preserva
       teste_def teste_endereco_def responder_snd calcular_taxa_deslocamento_preserva
       calcular_taxa_por_endereco_preserva)

lemma executar_preserva:
  "CACHE_COORDENADAS s k = Some v \<Longrightarrow>
     CACHE_COORDENADAS (executar w now xs s) k = Some v"
  by (induction xs arbitrary: s) (simp_all add: executar_op_preserva)

subsection \<open>Resolution is cached\<close>

text \<open>
  C5, as stated: every later resolution with the same key is served from the cache
  without a network call. It fails once the cache has been emptied: after
  \<open>POST /limpar-cache\<close> the same postal code is resolved through the registry and the
  geocoder again.
\<close>

theorem resolve_cached_counterexample:
  "fst (resolve mundo_ok (Por_cep (lit ''17017-337'')) estado_inicial) = Inr coord_bauru
   \<and> requisicoes (snd (resolve mundo_ok (Por_cep (lit ''17017-337'')) estado_inicial))
       = [Get_viacep (lit ''17017337''),
          Get_nominatim (lit ''Rua A, Centro, Bauru, SP, Brazil'') False]
   \<and> fst (limpar_cache (snd (resolve mundo_ok (Por_cep (lit ''17017-337'')) estado_inicial)))
       = 1
   \<and> requisicoes
         (snd (resolve mundo_ok (Por_cep (lit ''17017-337''))
                 (snd (limpar_cache
                         (snd (resolve mundo_ok (Por_cep (lit ''17017-337''))
                                 estado_inicial))))))
       = [Get_viacep (lit ''17017337''),
          Get_nominatim (lit ''Rua A, Centro, Bauru, SP, Brazil'') False,
          Get_viacep (lit ''17017337''),
          Get_nominatim (lit ''Rua A, Centro, Bauru, SP, Brazil'') False]"
  by (simp add: avaliar_resolver mundo_ok_campos bauru_def lugar_bauru_def coord_bauru_def
        limpar_cache_def)

text \<open>
  C5, amended. A successful resolution, by postal code or by address, leaves its
  Coordinate in the cache under the normalized key. After it, as long as the cache is
  not emptied, whatever the service does in between (resolutions, estimates, requests
  to the calculating endpoints) and however the upstream services answer by then, a
  resolution with the same normalized key returns that same Coordinate and leaves the
  state as it is: nothing is written and no request is issued. The normalized key is
  the one the code computes, with the runtime's own \<open>str.isdigit\<close>, \<open>str.lower\<close> and
  \<open>str.strip\<close>, whatever they do on the identifiers.
\<close>

theorem resolve_cached:
  assumes "resolve w i s = (Inr r, s1)"
  shows "CACHE_COORDENADAS s1 (chave w i) = Some r \<and>
         (\<forall>now xs j.
            chave w j = chave w i \<longrightarrow>
            resolve w j (executar w now xs s1) = (Inr r, executar w now xs s1) \<and>
            requisicoes (snd (resolve w j (executar w now xs s1)))
              = requisicoes (executar w now xs s1))"
proof -
  have c: "CACHE_COORDENADAS s1 (chave w i) = Some r"
    using assms by (rule resolve_sucesso)
  have "resolve w j (executar w now xs s1) = (Inr r, executar w now xs s1)"
    if "chave w j = chave w i" for now xs j
  proof -
    from c have "CACHE_COORDENADAS (executar w now xs s1) (chave w j) = Some r"
      unfolding that by (rule executar_preserva)
    then show ?thesis by (rule resolve_hit)
  qed
  with c show ?thesis by simp
qed

theorem resolve_cached_witness:
  "\<exists>r s1. resolve mundo_que_cai (Por_cep (lit ''17017-337'')) estado_inicial = (Inr r, s1)
     \<and> chave mundo_que_cai (Por_cep (lit ''17017337''))
         = chave mundo_que_cai (Por_cep (lit ''17017-337''))
     \<and> CACHE_COORDENADAS s1 (lit ''17017337'') = Some r
     \<and> resolve mundo_que_cai (Por_cep (lit ''17017337''))
           (executar mundo_que_cai ''2026-01-01T00:00:00''
              [Resolver (Por_endereco (lit ''Rua X'')), Get_teste (lit ''17500-005'')] s1)
         = (Inr r, executar mundo_que_cai ''2026-01-01T00:00:00''
                     [Resolver (Por_endereco (lit ''Rua X'')), Get_teste (lit ''17500-005'')]
                     s1)"
proof -
  have "\<exists>r s1. resolve mundo_que_cai (Por_cep (lit ''17017-337'')) estado_inicial = (Inr r, s1)"
    by (simp add: avaliar_resolver mundo_que_cai_def mundo_ok_campos bauru_def lugar_bauru_def)
  then obtain r s1 where
    run: "resolve mundo_que_cai (Por_cep (lit ''17017-337'')) estado_inicial = (Inr r, s1)"
    by blast
  have k: "chave mundo_que_cai (Por_cep (lit ''17017337''))
             = chave mundo_que_cai (Por_cep (lit ''17017-337''))"
    by (simp add: limpar_cep_def mundo_que_cai_def mundo_ok_campos isdigit_exemplo_def lit_def)
  have k': "chave mundo_que_cai (Por_cep (lit ''17017-337'')) = lit ''17017337''"
    by (simp add: limpar_cep_def mundo_que_cai_def mundo_ok_campos isdigit_exemplo_def lit_def)
  note main = resolve_cached [OF run]
  from main k' have "CACHE_COORDENADAS s1 (lit ''17017337'') = Some r" by simp
  moreover
  from main k have "resolve mundo_que_cai (Por_cep (lit ''17017337''))
           (executar mundo_que_cai ''2026-01-01T00:00:00''
              [Resolver (Por_endereco (lit ''Rua X'')), Get_teste (lit ''17500-005'')] s1)
         = (Inr r, executar mundo_que_cai ''2026-01-01T00:00:00''
                     [Resolver (Por_endereco (lit ''Rua X'')), Get_teste (lit ''17500-005'')]
                     s1)"
    by blast
  ultimately show ?thesis using run k by blast
qed

subsection \<open>A failed resolution leaves the cache alone\<close>

text \<open>
  C10. When a resolution fails, by either path, the cache after the call is the cache
  before it: an entry is added only by a resolution that succeeds. (The requests
  issued before the failure stay in the log.)
\<close>

theorem resolve_failure_keeps_cache:
  assumes "resolve w i s = (Inl e, s')"
  shows "CACHE_COORDENADAS s' = CACHE_COORDENADAS s"
  using assms by (rule resolve_falha)

theorem resolve_failure_keeps_cache_witness:
  "\<exists>s'. resolve mundo_ok (Por_cep (lit ''123'')) estado_inicial
          = (Inl (CEP_nao_encontrado (lit ''123'')), s')
        \<and> CACHE_COORDENADAS s' = CACHE_COORDENADAS estado_inicial
        \<and> requisicoes s' = [Get_viacep (lit ''123'')]"
proof -
  have "\<exists>s'. resolve mundo_ok (Por_cep (lit ''123'')) estado_inicial
               = (Inl (CEP_nao_encontrado (lit ''123'')), s')
             \<and> requisicoes s' = [Get_viacep (lit ''123'')]"
    by (simp add: avaliar_resolver mundo_ok_campos)
  then obtain s' where
    run: "resolve mundo_ok (Por_cep (lit ''123'')) estado_inicial
            = (Inl (CEP_nao_encontrado (lit ''123'')), s')"
    and reqs: "requisicoes s' = [Get_viacep (lit ''123'')]"
    by blast
  from resolve_failure_keeps_cache [OF run] run reqs show ?thesis by blast
qed

subsection \<open>The resolution chain of the postal-code path\<close>

lemma endereco_busca_cep_consulta: "endereco_busca_cep d = consulta_com_logradouro d"
  by (simp add: endereco_busca_cep_def consulta_com_logradouro_def consulta_completa_def
        consulta_cidade_def)

lemma buscar_tabela_cadeia:
  "buscar_tabela c k d s =
     concluir c k
       (primeira_que_resolve
          [consultar_tabela 5 k (coordenada_de (texto_cidade d @ lit '' (aproximado)'') d),
           consultar_tabela 2 k (coordenada_de (texto_cidade d @ lit '' (aproximado)'') d)] s)"
  by (simp add: buscar_tabela_def concluir_def consultar_tabela_def coordenada_de_def
        texto_cidade_def guardar_no_cache_def Let_def
        split: option.splits prod.splits)

lemma buscar_cidade_cadeia:
  "buscar_cidade w c k d s =
     concluir c k
       (primeira_que_resolve
          (geocodificar w (consulta_cidade d) (coordenada_de (texto_cidade d) d) # ts) s)"
  if "\<And>s1. buscar_tabela c k d s1 = concluir c k (primeira_que_resolve ts s1)"
  using that
  by (simp add: buscar_cidade_def geocodificar_def get_nominatim_def primeiro_resultado_def
        consulta_cidade_def coordenada_de_def texto_cidade_def guardar_no_cache_def concluir_def
        split: sum.splits option.splits list.splits prod.splits)

lemma caracteres_virgula_espaco:
  "(\<lambda>c. c \<in> set (lit '', '')) = (\<lambda>c. c = of_char (CHR '','') \<or> c = of_char (CHR '' ''))"
  by (auto simp add: lit_def)

lemma buscar_endereco_cadeia:
  "buscar_endereco w c k d s =
     concluir c k
       (primeira_que_resolve
          (geocodificar w (consulta_com_logradouro d) (coordenada_de (texto_endereco d) d) # ts) s)"
  if "\<And>s1. buscar_cidade w c k d s1 = concluir c k (primeira_que_resolve ts s1)"
  using that
  by (simp add: buscar_endereco_def geocodificar_def get_nominatim_def primeiro_resultado_def
        endereco_busca_cep_consulta coordenada_de_def texto_endereco_def guardar_no_cache_def
        concluir_def caracteres_virgula_espaco
        split: sum.splits option.splits list.splits prod.splits)

lemma mundo_agudos_campos:
  "viacep mundo_agudos t c = Inr \<lparr>status_code = 200, json = Inr agudos\<rparr>"
  "nominatim mundo_agudos t q d =
     (if q = lit ''Agudos, SP, Brazil''
      then Inr \<lparr>status_code = 200,
                json = Inr [\<lparr>place_lat = Inr (-22.4694), place_lon = Inr (-48.9878),
                             display_name = None, address = None\<rparr>]\<rparr>
      else Inr \<lparr>status_code = 200, json = Inr []\<rparr>)"
  "str_isdigit mundo_agudos = isdigit_exemplo"
  by (simp_all add: mundo_agudos_def mundo_ok_def)

text \<open>
  C4, as stated: the first geocoding query is always the street-level address. It
  fails for a registry entry without a street name, such as that of a city-wide postal
  code: the code asks for the city and state at once (lines 68-72), where the chain of
  the claim first asks for a street-level address with an empty street.
\<close>

theorem resolver_chain_counterexample:
  "requisicoes (snd (obter_coordenadas_viacep mundo_agudos (lit ''17120-000'') estado_inicial))
     = [Get_viacep (lit ''17120000''), Get_nominatim (lit ''Agudos, SP, Brazil'') False]
   \<and> requisicoes (snd (cadeia_resolucao consulta_completa mundo_agudos (lit ''17120-000'')
                         estado_inicial))
     = [Get_viacep (lit ''17120000''), Get_nominatim (lit '', , Agudos, SP, Brazil'') False,
        Get_nominatim (lit ''Agudos, SP, Brazil'') False]"
  by (simp add: avaliar_resolver mundo_agudos_campos agudos_def cadeia_resolucao_def
        registro_def concluir_def geocodificar_def consulta_completa_def consulta_cidade_def
        coordenada_de_def texto_endereco_def texto_cidade_def)

text \<open>
  C4, amended. On every input the postal-code resolver is the chain: answer from the
  cache if the normalized code is there; query the registry, failing when it does not
  know the code (status other than 200, or the \<open>erro\<close> flag: the spec's
  \<open>INVALID_POSTAL_CODE\<close>); geocode the street-level address when the registry entry has
  a street name and the city and state otherwise; on no result geocode the city and
  state; on no result look the 5-digit prefix up in the table, then the 2-digit prefix;
  if none matches fail (\<open>COORDINATES_UNAVAILABLE\<close>). An exception of a request goes
  through; a Coordinate found is cached.
\<close>

theorem resolver_chain:
  "obter_coordenadas_viacep w c s = cadeia_resolucao consulta_com_logradouro w c s"
proof -
  have "buscar_endereco w c k d s1 =
          concluir c k
            (primeira_que_resolve
               [geocodificar w (consulta_com_logradouro d) (coordenada_de (texto_endereco d) d),
                geocodificar w (consulta_cidade d) (coordenada_de (texto_cidade d) d),
                consultar_tabela 5 k (coordenada_de (texto_cidade d @ lit '' (aproximado)'') d),
                consultar_tabela 2 k (coordenada_de (texto_cidade d @ lit '' (aproximado)'') d)]
               s1)" for k d s1
    by (intro buscar_endereco_cadeia buscar_cidade_cadeia buscar_tabela_cadeia)
  then show ?thesis
    by (simp add: obter_coordenadas_viacep_def cadeia_resolucao_def registro_def Let_def
          split: option.splits prod.splits sum.splits)
qed

subsection \<open>The great-circle fallback\<close>

text \<open>In exact arithmetic the haversine term lies between 0 and 1.\<close>

lemma hav_sin: "hav \<theta> = (sin (\<theta> / 2))\<^sup>2"
  using cos_double_sin [of "\<theta> / 2"] by (simp add: hav_def)

lemma cos_mult_cos:
  fixes u v :: real
  shows "cos (v - u) * cos (v + u) = (cos v)\<^sup>2 - (sin u)\<^sup>2"
proof -
  have "cos (v - u) * cos (v + u)
          = (cos v * cos u + sin v * sin u) * (cos v * cos u - sin v * sin u)"
    unfolding cos_add cos_diff ..
  also have "\<dots> = (cos v)\<^sup>2 * (cos u)\<^sup>2 - (sin v)\<^sup>2 * (sin u)\<^sup>2"
    by (simp add: power2_eq_square algebra_simps)
  also have "\<dots> = (cos v)\<^sup>2 * (1 - (sin u)\<^sup>2) - (1 - (cos v)\<^sup>2) * (sin u)\<^sup>2"
    by (simp add: cos_squared_eq [of u] sin_squared_eq [of v])
  also have "\<dots> = (cos v)\<^sup>2 - (sin u)\<^sup>2"
    by (simp add: algebra_simps)
  finally show ?thesis .
qed

lemma haversine_form:
  fixes p1 p2 s :: real
  shows "(sin ((p2 - p1) / 2))\<^sup>2 + cos p1 * cos p2 * s
           = (sin ((p2 - p1) / 2))\<^sup>2 * (1 - s) + (cos ((p1 + p2) / 2))\<^sup>2 * s"
proof -
  have "cos p1 * cos p2 = cos ((p1 + p2) / 2 - (p2 - p1) / 2) * cos ((p1 + p2) / 2 + (p2 - p1) / 2)"
    by (simp add: field_simps)
  also have "\<dots> = (cos ((p1 + p2) / 2))\<^sup>2 - (sin ((p2 - p1) / 2))\<^sup>2"
    by (rule cos_mult_cos)
  finally have eq: "cos p1 * cos p2 = (cos ((p1 + p2) / 2))\<^sup>2 - (sin ((p2 - p1) / 2))\<^sup>2" .
  show ?thesis unfolding eq by (simp add: algebra_simps)
qed

lemma sin_squared_le_one: "(sin (x::real))\<^sup>2 \<le> 1"
  using abs_sin_le_one [of x] by (simp add: abs_square_le_1)

lemma cos_squared_le_one: "(cos (x::real))\<^sup>2 \<le> 1"
  using abs_cos_le_one [of x] by (simp add: abs_square_le_1)

lemma haversine_a_bounds: "0 \<le> haversine_a c1 c2 \<and> haversine_a c1 c2 \<le> 1"
proof -
  define p1 where "p1 = radians (lat c1)"
  define p2 where "p2 = radians (lat c2)"
  define s where "s = (sin ((radians (lon c2) - radians (lon c1)) / 2))\<^sup>2"
  define A where "A = (sin ((p2 - p1) / 2))\<^sup>2"
  define B where "B = (cos ((p1 + p2) / 2))\<^sup>2"
  have a: "haversine_a c1 c2 = A * (1 - s) + B * s"
    unfolding haversine_a_def Let_def A_def B_def
    using haversine_form [of p2 p1 s] by (simp add: p1_def p2_def s_def)
  have s: "0 \<le> s" "s \<le> 1" by (simp_all add: s_def sin_squared_le_one)
  have A: "0 \<le> A" "A \<le> 1" by (simp_all add: A_def sin_squared_le_one)
  have B: "0 \<le> B" "B \<le> 1" by (simp_all add: B_def cos_squared_le_one)
  have lo: "0 \<le> A * (1 - s) + B * s"
    using s A B by (simp add: add_nonneg_nonneg)
  have "A * (1 - s) \<le> 1 * (1 - s)" using s A by (intro mult_right_mono) simp_all
  moreover have "B * s \<le> 1 * s" using s B by (intro mult_right_mono) simp_all
  ultimately have "A * (1 - s) + B * s \<le> 1" by simp
  with lo a show ?thesis by simp
qed

lemma atan2_sqrt:
  assumes "0 \<le> a" "a \<le> 1"
  shows "atan2 (sqrt a) (sqrt (1 - a)) = arcsin (sqrt a)"
proof (cases "a = 1")
  case True
  then show ?thesis by (simp add: atan2_def)
next
  case False
  with assms have lt: "a < 1" by simp
  then have pos: "0 < sqrt (1 - a)" by simp
  have "sqrt a < 1" using lt assms by (simp add: real_sqrt_lt_1_iff)
  moreover have "- 1 < sqrt a" using assms
    by (meson less_le_trans neg_less_0_iff_less real_sqrt_ge_zero zero_less_one)
  ultimately have "arcsin (sqrt a) = arctan (sqrt a / sqrt (1 - (sqrt a)\<^sup>2))"
    by (intro arcsin_arctan)
  with assms pos show ?thesis by (simp add: atan2_def)
qed

text \<open>
  When the double held in \<open>a\<close> lies between 0 and 1, the fallback returns, and its
  central angle is the arcsine form of the haversine formula.
\<close>

lemma calcular_distancia_haversine_eq:
  assumes "0 \<le> haversine_a c1 c2 + erro_a w c1 c2" "haversine_a c1 c2 + erro_a w c1 c2 \<le> 1"
  shows "calcular_distancia_haversine w c1 c2 =
     Inr \<lparr>distancia_metros =
            6371000 * (2 * arcsin (sqrt (haversine_a c1 c2 + erro_a w c1 c2))) * 1.3,
          duracao_segundos =
            (6371000 * (2 * arcsin (sqrt (haversine_a c1 c2 + erro_a w c1 c2))) * 1.3 / 1000)
              * 3600 / 80,
          metodo = ''haversine_ajustado''\<rparr>"
  using assms
  by (simp add: calcular_distancia_haversine_def py_sqrt_def Let_def atan2_sqrt)


lemma haversine_a_hav:
  "haversine_a c1 c2 =
     hav (lat c2 * pi / 180 - lat c1 * pi / 180)
       + cos (lat c1 * pi / 180) * cos (lat c2 * pi / 180)
           * hav (lon c2 * pi / 180 - lon c1 * pi / 180)"
  by (simp add: haversine_a_def radians_def hav_sin Let_def)

lemma distancia_haversine_spec:
  "6371000 * (2 * arcsin (sqrt (haversine_a c1 c2)))
     = distancia_grande_circulo (lat c1) (lon c1) (lat c2) (lon c2)"
  by (simp add: distancia_grande_circulo_def Let_def haversine_a_hav)

text \<open>
  With no rounding error, the fallback is 1.3 times the great-circle distance of the
  haversine formula, at 80 km/h.
\<close>

lemma calcular_distancia_haversine_exato:
  assumes "erro_a w c1 c2 = 0"
  shows "calcular_distancia_haversine w c1 c2 =
     Inr \<lparr>distancia_metros =
            distancia_grande_circulo (lat c1) (lon c1) (lat c2) (lon c2) * 1.3,
          duracao_segundos =
            distancia_grande_circulo (lat c1) (lon c1) (lat c2) (lon c2) * 1.3 / 1000 / 80 * 3600,
          metodo = ''haversine_ajustado''\<rparr>"
proof -
  from assms haversine_a_bounds [of c1 c2]
  have "0 \<le> haversine_a c1 c2 + erro_a w c1 c2" "haversine_a c1 c2 + erro_a w c1 c2 \<le> 1"
    by simp_all
  then show ?thesis
    unfolding calcular_distancia_haversine_eq [OF \<open>0 \<le> haversine_a c1 c2 + erro_a w c1 c2\<close>
        \<open>haversine_a c1 c2 + erro_a w c1 c2 \<le> 1\<close>]
    using assms distancia_haversine_spec [of c1 c2] by simp
qed

text \<open>When the routing query fails, the estimator gives what the fallback gives.\<close>

lemma rota_osrm_falhou:
  assumes "osrm_falhou resposta"
  shows "(case resposta of Inl e \<Rightarrow> Inl e | Inr response \<Rightarrow> rota_osrm response) = Inr None
         \<or> (\<exists>e. (case resposta of Inl e \<Rightarrow> Inl e | Inr response \<Rightarrow> rota_osrm response) = Inl e)"
  using assms
  by (auto simp add: osrm_falhou_def rota_osrm_def
        split: sum.splits option.splits list.splits if_splits)

lemma calcular_distancia_osrm_falhou:
  assumes "osrm_falhou (osrm w (length (requisicoes s)) (lon c1) (lat c1) (lon c2) (lat c2))"
  shows "calcular_distancia_osrm w c1 c2 s =
           (calcular_distancia_haversine w c1 c2,
            s\<lparr>requisicoes := requisicoes s @ [Get_osrm (lon c1) (lat c1) (lon c2) (lat c2)]\<rparr>)"
  using rota_osrm_falhou [OF assms]
  by (auto simp add: calcular_distancia_osrm_def get_osrm_def split: sum.splits)




lemma rota_osrm_ok:
  assumes "\<not> osrm_falhou resposta"
  shows "\<exists>response data r rs d t.
           resposta = Inr response \<and> status_code response = 200 \<and> json response = Inr data \<and>
           code data = Some (lit ''Ok'') \<and> routes data = Some (r # rs) \<and>
           distance r = Some d \<and> duration r = Some t \<and>
           rota_osrm response =
             Inr (Some \<lparr>distancia_metros = d, duracao_segundos = t, metodo = ''osrm''\<rparr>)"
proof -
  from assms obtain response where r: "resposta = Inr response"
    by (cases resposta) (simp_all add: osrm_falhou_def)
  with assms have st: "status_code response = 200"
    by (simp add: osrm_falhou_def)
  from assms r st obtain data where d: "json response = Inr data"
    by (cases "json response") (simp_all add: osrm_falhou_def)
  from assms r st d have c: "code data = Some (lit ''Ok'')"
    by (simp add: osrm_falhou_def)
  from assms r st d c obtain ro rs where rt: "routes data = Some (ro # rs)"
    by (cases "routes data") (auto simp add: osrm_falhou_def split: list.splits)
  from assms r st d c rt obtain di du where
    f: "distance ro = Some di" "duration ro = Some du"
    by (auto simp add: osrm_falhou_def)
  have "rota_osrm response =
          Inr (Some \<lparr>distancia_metros = di, duracao_segundos = du, metodo = ''osrm''\<rparr>)"
    by (simp add: rota_osrm_def st d c rt f)
  with r st d c rt f show ?thesis by blast
qed

lemma calcular_distancia_osrm_ok:
  assumes "\<not> osrm_falhou (osrm w (length (requisicoes s)) (lon c1) (lat c1) (lon c2) (lat c2))"
  shows "\<exists>response data r rs d t.
           osrm w (length (requisicoes s)) (lon c1) (lat c1) (lon c2) (lat c2) = Inr response \<and>
           json response = Inr data \<and> routes data = Some (r # rs) \<and>
           distance r = Some d \<and> duration r = Some t \<and>
           calcular_distancia_osrm w c1 c2 s =
             (Inr \<lparr>distancia_metros = d, duracao_segundos = t, metodo = ''osrm''\<rparr>,
              s\<lparr>requisicoes := requisicoes s @ [Get_osrm (lon c1) (lat c1) (lon c2) (lat c2)]\<rparr>)"
proof -
  from rota_osrm_ok [OF assms] obtain response data r rs d t where
    h: "osrm w (length (requisicoes s)) (lon c1) (lat c1) (lon c2) (lat c2) = Inr response"
       "json response = Inr data" "routes data = Some (r # rs)"
       "distance r = Some d" "duration r = Some t"
       "rota_osrm response =
          Inr (Some \<lparr>distancia_metros = d, duracao_segundos = t, metodo = ''osrm''\<rparr>)"
    by blast
  then have "calcular_distancia_osrm w c1 c2 s =
             (Inr \<lparr>distancia_metros = d, duracao_segundos = t, metodo = ''osrm''\<rparr>,
              s\<lparr>requisicoes := requisicoes s @ [Get_osrm (lon c1) (lat c1) (lon c2) (lat c2)]\<rparr>)"
    by (simp add: calcular_distancia_osrm_def get_osrm_def)
  with h show ?thesis by blast
qed

text \<open>With no rounding error the estimator always answers.\<close>

lemma calcular_distancia_osrm_exato:
  assumes "erro_a w c1 c2 = 0"
  shows "\<exists>est s'. calcular_distancia_osrm w c1 c2 s = (Inr est, s')"
proof (cases "osrm_falhou (osrm w (length (requisicoes s)) (lon c1) (lat c1) (lon c2) (lat c2))")
  case True
  then show ?thesis
    by (simp add: calcular_distancia_osrm_falhou calcular_distancia_haversine_exato [OF assms])
next
  case False
  from calcular_distancia_osrm_ok [OF False] show ?thesis by blast
qed

subsection \<open>Fallback of the distance estimator\<close>


subsection \<open>The distance estimator can raise\<close>


subsection \<open>Validation of the postal code by POST /calcular\<close>

text \<open>
  C8, as stated: every request carrying a malformed postal code is answered
  \<open>CEP_INVALIDO\<close> without a network call. It fails for a body that carries an address
  as well: \<open>calcular\<close> looks at \<open>'endereco'\<close> first (line 577) and never reads the postal
  code. Here no service is reachable: the answer is \<open>ERRO_CALCULO\<close>, after a request to
  the registry for the depot. And a postal code that is not a string has no digits to
  count: \<open>limpar_cep\<close> raises and the answer is \<open>ERRO_SERVIDOR\<close> with status 500.
\<close>

theorem invalid_cep_counterexample:
  "length (limpar_cep mundo_sem_rede (lit ''123'')) \<noteq> 8
   \<and> calcular mundo_sem_rede ''2026-01-01T00:00:00''
         (Corpo (Some (Texto (lit ''Rua X''))) (Some (Texto (lit ''123'')))) estado_inicial
       = ((Erro ''ERRO_CALCULO'' (Str_excecao RequestException), 400),
          \<lparr>CACHE_COORDENADAS = Map.empty, requisicoes = [Get_viacep (lit ''17017337'')]\<rparr>)
   \<and> calcular mundo_sem_rede ''2026-01-01T00:00:00'' (Corpo None (Some Nao_texto))
         estado_inicial
       = ((Erro ''ERRO_SERVIDOR'' Texto_fixo, 500), estado_inicial)"
  by (simp add: calcular_def responder_def calcular_taxa_por_endereco_def avaliar_resolver
        mundo_sem_rede_campos)

text \<open>
  C8, amended. For every request whose body carries a postal code that is a string,
  and no address, if the digits of the postal code (the characters that \<open>str.isdigit\<close>
  accepts) are not exactly 8, the answer is the error \<open>CEP_INVALIDO\<close> with status 400,
  and the state is the one before the request: no request was issued and the cache was
  not touched.
\<close>

theorem invalid_cep_rejected:
  assumes "length (limpar_cep w c) \<noteq> 8"
  shows "calcular w now (Corpo None (Some (Texto c))) s
           = ((Erro ''CEP_INVALIDO'' (Cep_recebido c), 400), s)"
  using assms by (simp add: calcular_def)

theorem invalid_cep_rejected_witness:
  "length (limpar_cep mundo_ok (lit ''123'')) \<noteq> 8
   \<and> calcular mundo_ok ''2026-01-01T00:00:00'' (Corpo None (Some (Texto (lit ''123''))))
         estado_inicial
       = ((Erro ''CEP_INVALIDO'' (Cep_recebido (lit ''123'')), 400), estado_inicial)"
proof -
  have h: "length (limpar_cep mundo_ok (lit ''123'')) \<noteq> 8"
    by (simp add: limpar_cep_def mundo_ok_campos isdigit_exemplo_def lit_def)
  from invalid_cep_rejected [OF h] h show ?thesis by simp
qed

subsection \<open>The GET test endpoints and POST /calcular\<close>

text \<open>
  On the inputs that pass the validation of \<open>calcular\<close> the test endpoints answer as it
  does: same dictionary, same status, same state afterwards.
\<close>

lemma teste_como_calcular:
  "length (limpar_cep w c) = 8 \<Longrightarrow>
     teste w now c s = calcular w now (Corpo None (Some (Texto c))) s"
  "e \<noteq> [] \<Longrightarrow> strip w e = e \<Longrightarrow>
     teste_endereco w now e s = calcular w now (Corpo (Some (Texto e)) campo_cep) s"
  by (simp_all add: teste_def teste_endereco_def calcular_def)

text \<open>
  C9. The claim: \<open>GET /teste/<cep>\<close> and \<open>GET /teste-endereco/<endereco>\<close> answer as
  \<open>POST /calcular\<close> with the same identifier, from the same state. The code does not
  fulfil it: the two handlers call the fee functions directly (lines 633, 648) and
  skip the validation that \<open>calcular\<close> performs before the same calls (lines 578-600).
  For the postal code \<open>123\<close>, \<open>POST /calcular\<close> answers \<open>CEP_INVALIDO\<close> and touches
  nothing, while \<open>GET /teste/123\<close> resolves the depot, asks the registry for \<open>123\<close> and
  answers \<open>ERRO_CALCULO\<close>. For an address of one space, \<open>POST /calcular\<close> answers
  \<open>ENDERECO_VAZIO\<close>, while \<open>GET /teste-endereco\<close> geocodes it and here succeeds.
\<close>

theorem test_endpoint_divergence:
  "calcular mundo_ok ''2026-01-01T00:00:00'' (Corpo None (Some (Texto (lit ''123''))))
       estado_inicial
     = ((Erro ''CEP_INVALIDO'' (Cep_recebido (lit ''123'')), 400), estado_inicial)
   \<and> fst (teste mundo_ok ''2026-01-01T00:00:00'' (lit ''123'') estado_inicial)
     = (Erro ''ERRO_CALCULO'' (Str_excecao (CEP_nao_encontrado (lit ''123''))), 400)
   \<and> requisicoes (snd (teste mundo_ok ''2026-01-01T00:00:00'' (lit ''123'') estado_inicial))
     = [Get_viacep (lit ''17017337''),
        Get_nominatim (lit ''Rua A, Centro, Bauru, SP, Brazil'') False,
        Get_viacep (lit ''123'')]
   \<and> calcular mundo_ok ''2026-01-01T00:00:00'' (Corpo (Some (Texto (lit '' ''))) None)
       estado_inicial
     = ((Erro ''ENDERECO_VAZIO'' Texto_fixo, 400), estado_inicial)
   \<and> snd (fst (teste_endereco mundo_ok ''2026-01-01T00:00:00'' (lit '' '') estado_inicial))
     = 200"
  by (simp add: calcular_def teste_def teste_endereco_def responder_def avaliar_taxa
        avaliar_resolver mundo_ok_campos bauru_def lugar_bauru_def)

end
